theory Spec2Isabelle
  imports Main
begin

section \<open>JavaScript values\<close>

text \<open>
  The compiler handles untyped data throughout (\<^verbatim>\<open>unknown\<close>, \<^verbatim>\<open>Record<string, unknown>\<close>):
  schemas, step parameters, mapping tables and the template context. They are modelled by
  one datatype of JavaScript values.
  \<^item> Data is what parsing a JSON or YAML document yields, and \<^verbatim>\<open>undefined\<close>. An object
    is an ordinary object: the list of its own enumerable properties in enumeration
    order, with distinct keys (none of them \<^verbatim>\<open>__proto__\<close>, which an assignment treats as
    the prototype), and \<^verbatim>\<open>Object.prototype\<close> as its prototype; an array has
    \<^verbatim>\<open>Array.prototype\<close>.
  \<^item> Reading a property, and the \<^verbatim>\<open>in\<close> operator, also find the members an object or
    an array inherits from its prototype. Such a member is a built-in function, or the
    prototype object itself for \<^verbatim>\<open>__proto__\<close>; these are the values \<open>JBuiltin\<close>, a
    function being known by its name. Built-ins are results of reads, never part of data.
    The member names are those of ECMAScript 2023 (Node 20 and later).
  \<^item> A number is represented by its rendering, the string \<^verbatim>\<open>String(n)\<close> gives
    (\<^verbatim>\<open>2\<close>, \<^verbatim>\<open>0.5\<close>, \<^verbatim>\<open>1e+21\<close>, \<^verbatim>\<open>NaN\<close>): the code renders numbers, tests their
    truthiness and compares them for identity, and two numbers are the same value exactly
    when their renderings agree.
  \<^item> A string is the list of its UTF-16 code units; the model has the code units below
    256.
\<close>

datatype builtin = ObjectPrototype | ArrayPrototype | NativeFunction string

datatype jsval =
    JUndefined
  | JNull
  | JBool bool
  | JNum string
  | JStr string
  | JArr "jsval list"
  | JObj "(string \<times> jsval) list"
  | JBuiltin builtin

datatype error = Error string

text \<open>Truthiness, as tested by \<^verbatim>\<open>!x\<close>, \<^verbatim>\<open>if (x)\<close> and \<^verbatim>\<open>Boolean(x)\<close>.\<close>

fun truthy :: "jsval \<Rightarrow> bool" where
  "truthy JUndefined = False"
| "truthy JNull = False"
| "truthy (JBool b) = b"
| "truthy (JNum n) = (n \<noteq> ''0'' \<and> n \<noteq> ''NaN'')"
| "truthy (JStr s) = (s \<noteq> [])"
| "truthy (JArr xs) = True"
| "truthy (JObj kvs) = True"
| "truthy (JBuiltin b) = True"

text \<open>
  \<^verbatim>\<open>typeof x === "object"\<close> holds of null, arrays and objects (the prototype objects
  among them); of a function \<^verbatim>\<open>typeof\<close> is \<^verbatim>\<open>"function"\<close>.
\<close>

fun typeof_object :: "jsval \<Rightarrow> bool" where
  "typeof_object JNull = True"
| "typeof_object (JArr xs) = True"
| "typeof_object (JObj kvs) = True"
| "typeof_object (JBuiltin (NativeFunction n)) = False"
| "typeof_object (JBuiltin b) = True"
| "typeof_object v = False"

text \<open>\<^verbatim>\<open>Array.isArray(x)\<close>; \<^verbatim>\<open>Array.prototype\<close> is itself an array.\<close>

fun isArray :: "jsval \<Rightarrow> bool" where
  "isArray (JArr xs) = True"
| "isArray (JBuiltin ArrayPrototype) = True"
| "isArray v = False"

fun isString :: "jsval \<Rightarrow> bool" where
  "isString (JStr s) = True"
| "isString v = False"

text \<open>The first failure of a list of results, or all the values.\<close>

fun sequence_sum :: "(error + 'a) list \<Rightarrow> error + 'a list" where
  "sequence_sum [] = Inr []"
| "sequence_sum (Inl e # rs) = Inl e"
| "sequence_sum (Inr v # rs) = (case sequence_sum rs of Inl e \<Rightarrow> Inl e | Inr vs \<Rightarrow> Inr (v # vs))"

subsection \<open>Strings\<close>

function show_nat :: "nat \<Rightarrow> string" where
  "show_nat n =
     (if n < 10 then [''0123456789'' ! n]
      else show_nat (n div 10) @ [''0123456789'' ! (n mod 10)])"
  by pat_completeness auto
termination
  by (relation "measure id") auto

declare show_nat.simps [simp del]

text \<open>\<^verbatim>\<open>parts.join(sep)\<close>\<close>

fun join :: "string \<Rightarrow> string list \<Rightarrow> string" where
  "join sep [] = []"
| "join sep [x] = x"
| "join sep (x # y # ys) = x @ sep @ join sep (y # ys)"

text \<open>\<^verbatim>\<open>s.split(".")\<close>: always at least one part.\<close>

fun split_dot :: "string \<Rightarrow> string list" where
  "split_dot [] = [[]]"
| "split_dot (c # cs) =
     (if c = CHR ''.'' then [] # split_dot cs
      else (case split_dot cs of
              [] \<Rightarrow> [[c]]
            | p # ps \<Rightarrow> (c # p) # ps))"

text \<open>
  The white space and line terminators \<^verbatim>\<open>trim\<close> strips, among the code units below 256:
  tab, line feed, vertical tab, form feed, carriage return, space and no-break space.
\<close>

definition is_space :: "char \<Rightarrow> bool" where
  "is_space c = (c \<in> set [CHR '' '', CHR 0x09, CHR 0x0A, CHR 0x0B, CHR 0x0C, CHR 0x0D, CHR 0xA0])"

definition trim :: "string \<Rightarrow> string" where
  "trim s = rev (dropWhile is_space (rev (dropWhile is_space s)))"

subsection \<open>Property access\<close>

text \<open>
  The canonical index strings of an array of length \<open>n\<close> are the decimal numerals of
  \<open>0..<n\<close>; \<^verbatim>\<open>"01"\<close> is no index.
\<close>

definition array_index :: "string \<Rightarrow> nat \<Rightarrow> nat option" where
  "array_index k n = find (\<lambda>i. show_nat i = k) [0..<n]"

text \<open>The string-keyed members of \<^verbatim>\<open>Object.prototype\<close> and of \<^verbatim>\<open>Array.prototype\<close>.\<close>

definition objectPrototypeNames :: "string list" where
  "objectPrototypeNames =
     [''constructor'', ''__defineGetter__'', ''__defineSetter__'', ''hasOwnProperty'',
      ''__lookupGetter__'', ''__lookupSetter__'', ''isPrototypeOf'', ''propertyIsEnumerable'',
      ''toString'', ''valueOf'', ''__proto__'', ''toLocaleString'']"

definition arrayPrototypeNames :: "string list" where
  "arrayPrototypeNames =
     [''at'', ''concat'', ''constructor'', ''copyWithin'', ''entries'', ''every'', ''fill'',
      ''filter'', ''find'', ''findIndex'', ''findLast'', ''findLastIndex'', ''flat'', ''flatMap'',
      ''forEach'', ''includes'', ''indexOf'', ''join'', ''keys'', ''lastIndexOf'', ''map'', ''pop'',
      ''push'', ''reduce'', ''reduceRight'', ''reverse'', ''shift'', ''slice'', ''some'', ''sort'',
      ''splice'', ''toLocaleString'', ''toReversed'', ''toSorted'', ''toSpliced'', ''toString'',
      ''unshift'', ''values'', ''with'']"

text \<open>
  What a read of \<open>k\<close> finds on \<^verbatim>\<open>Object.prototype\<close> for an object, and on
  \<^verbatim>\<open>Array.prototype\<close> (then \<^verbatim>\<open>Object.prototype\<close>) for an array, that has no such
  property of its own. \<^verbatim>\<open>__proto__\<close> reads the prototype; \<^verbatim>\<open>constructor\<close> is the function
  \<^verbatim>\<open>Object\<close>, or \<^verbatim>\<open>Array\<close>; every other member is the function of that name.
\<close>

definition objectMember :: "string \<Rightarrow> jsval" where
  "objectMember k =
     (if k = ''__proto__'' then JBuiltin ObjectPrototype
      else if k = ''constructor'' then JBuiltin (NativeFunction ''Object'')
      else if k \<in> set objectPrototypeNames then JBuiltin (NativeFunction k)
      else JUndefined)"

definition arrayMember :: "string \<Rightarrow> jsval" where
  "arrayMember k =
     (if k = ''__proto__'' then JBuiltin ArrayPrototype
      else if k = ''constructor'' then JBuiltin (NativeFunction ''Array'')
      else if k \<in> set arrayPrototypeNames \<or> k \<in> set objectPrototypeNames
      then JBuiltin (NativeFunction k)
      else JUndefined)"

text \<open>
  \<^verbatim>\<open>obj[key]\<close> on a value that is not null or undefined. A property of the object's own
  comes first, an inherited member otherwise. The prototype of \<^verbatim>\<open>Object.prototype\<close> is
  null; \<^verbatim>\<open>Array.prototype\<close> is an empty array. Of a primitive the code reads only names
  of data (\<^verbatim>\<open>type\<close>, \<^verbatim>\<open>enum\<close>, ...), which no primitive has, and it never reads a member
  of a function.
\<close>

fun get_prop :: "jsval \<Rightarrow> string \<Rightarrow> jsval" where
  "get_prop (JObj kvs) k = (case map_of kvs k of Some v \<Rightarrow> v | None \<Rightarrow> objectMember k)"
| "get_prop (JArr xs) k =
     (if k = ''length'' then JNum (show_nat (length xs))
      else (case array_index k (length xs) of Some i \<Rightarrow> xs ! i | None \<Rightarrow> arrayMember k))"
| "get_prop (JBuiltin ObjectPrototype) k = (if k = ''__proto__'' then JNull else objectMember k)"
| "get_prop (JBuiltin ArrayPrototype) k =
     (if k = ''length'' then JNum ''0''
      else if k = ''__proto__'' then JBuiltin ObjectPrototype
      else arrayMember k)"
| "get_prop v k = JUndefined"

text \<open>
  \<^verbatim>\<open>key in obj\<close>: a property of the object's own or an inherited one. (On a primitive the
  operator raises a TypeError; the code applies it to objects and arrays.)
\<close>

fun js_in :: "string \<Rightarrow> jsval \<Rightarrow> bool" where
  "js_in k (JObj kvs) = (k \<in> fst ` set kvs \<or> k \<in> set objectPrototypeNames)"
| "js_in k (JArr xs) =
     (k = ''length'' \<or> array_index k (length xs) \<noteq> None
      \<or> k \<in> set arrayPrototypeNames \<or> k \<in> set objectPrototypeNames)"
| "js_in k (JBuiltin ObjectPrototype) = (k \<in> set objectPrototypeNames)"
| "js_in k (JBuiltin ArrayPrototype) =
     (k = ''length'' \<or> k \<in> set arrayPrototypeNames \<or> k \<in> set objectPrototypeNames)"
| "js_in k v = False"

text \<open>
  The property names the code itself reads (of schemas, mapping entries, path expressions
  and condition results) are names of data: no object or array inherits a member so
  named.
\<close>

lemma data_names [simp]:
  "''type'' \<notin> set objectPrototypeNames" "''type'' \<notin> set arrayPrototypeNames"
  "''enum'' \<notin> set objectPrototypeNames" "''enum'' \<notin> set arrayPrototypeNames"
  "''required'' \<notin> set objectPrototypeNames" "''required'' \<notin> set arrayPrototypeNames"
  "''properties'' \<notin> set objectPrototypeNames" "''properties'' \<notin> set arrayPrototypeNames"
  "''items'' \<notin> set objectPrototypeNames" "''items'' \<notin> set arrayPrototypeNames"
  "''oneOf'' \<notin> set objectPrototypeNames" "''oneOf'' \<notin> set arrayPrototypeNames"
  "''anyOf'' \<notin> set objectPrototypeNames" "''anyOf'' \<notin> set arrayPrototypeNames"
  "''from'' \<notin> set objectPrototypeNames" "''from'' \<notin> set arrayPrototypeNames"
  "''stepId'' \<notin> set objectPrototypeNames" "''stepId'' \<notin> set arrayPrototypeNames"
  "''path'' \<notin> set objectPrototypeNames" "''path'' \<notin> set arrayPrototypeNames"
  "''value'' \<notin> set objectPrototypeNames" "''value'' \<notin> set arrayPrototypeNames"
  "''condition'' \<notin> set objectPrototypeNames" "''condition'' \<notin> set arrayPrototypeNames"
  "''$path'' \<notin> set objectPrototypeNames" "''$path'' \<notin> set arrayPrototypeNames"
  "''$jsonPath'' \<notin> set objectPrototypeNames" "''$jsonPath'' \<notin> set arrayPrototypeNames"
  "''minLength'' \<notin> set objectPrototypeNames" "''minLength'' \<notin> set arrayPrototypeNames"
  "''maxLength'' \<notin> set objectPrototypeNames" "''maxLength'' \<notin> set arrayPrototypeNames"
  "''pattern'' \<notin> set objectPrototypeNames" "''pattern'' \<notin> set arrayPrototypeNames"
  "''minimum'' \<notin> set objectPrototypeNames" "''minimum'' \<notin> set arrayPrototypeNames"
  "''maximum'' \<notin> set objectPrototypeNames" "''maximum'' \<notin> set arrayPrototypeNames"
  "''exclusiveMinimum'' \<notin> set objectPrototypeNames" "''exclusiveMinimum'' \<notin> set arrayPrototypeNames"
  "''exclusiveMaximum'' \<notin> set objectPrototypeNames" "''exclusiveMaximum'' \<notin> set arrayPrototypeNames"
  by (simp_all add: objectPrototypeNames_def arrayPrototypeNames_def)

lemma objectMember_data [simp]: "k \<notin> set objectPrototypeNames \<Longrightarrow> objectMember k = JUndefined"
  by (auto simp: objectMember_def objectPrototypeNames_def)

lemma arrayMember_data [simp]:
  "k \<notin> set arrayPrototypeNames \<Longrightarrow> k \<notin> set objectPrototypeNames \<Longrightarrow> arrayMember k = JUndefined"
  by (auto simp: arrayMember_def objectPrototypeNames_def arrayPrototypeNames_def)

text \<open>\<^verbatim>\<open>Object.entries(obj)\<close>: own enumerable properties only.\<close>

fun entries :: "jsval \<Rightarrow> (string \<times> jsval) list" where
  "entries (JObj kvs) = kvs"
| "entries (JArr xs) = map (\<lambda>i. (show_nat i, xs ! i)) [0..<length xs]"
| "entries v = []"

text \<open>
  \<^verbatim>\<open>String(x)\<close>. An array is joined by commas, null and undefined elements rendering as
  nothing. An object is rendered by the \<^verbatim>\<open>toString\<close> it inherits; when it has a
  \<^verbatim>\<open>toString\<close> entry of its own, which as data is not callable, the conversion finds no
  primitive and raises a TypeError. A built-in function renders as Node does.
\<close>

fun js_String :: "jsval \<Rightarrow> error + string" where
  "js_String JUndefined = Inr ''undefined''"
| "js_String JNull = Inr ''null''"
| "js_String (JBool b) = Inr (if b then ''true'' else ''false'')"
| "js_String (JNum n) = Inr n"
| "js_String (JStr s) = Inr s"
| "js_String (JArr xs) =
     (case sequence_sum (map (\<lambda>x. if x = JUndefined \<or> x = JNull then Inr [] else js_String x) xs) of
        Inl e \<Rightarrow> Inl e
      | Inr rendered \<Rightarrow> Inr (join '','' rendered))"
| "js_String (JObj kvs) =
     (if ''toString'' \<in> fst ` set kvs then Inl (Error ''Cannot convert object to primitive value'')
      else Inr ''[object Object]'')"
| "js_String (JBuiltin ObjectPrototype) = Inr ''[object Object]''"
| "js_String (JBuiltin ArrayPrototype) = Inr []"
| "js_String (JBuiltin (NativeFunction n)) = Inr (''function '' @ n @ ''() { [native code] }'')"

section \<open>Expression resolver (templating)\<close>

record TemplateContext =
  inputData :: jsval
  ctxSteps :: jsval
  initData :: jsval
  requestContext :: jsval

text \<open>The loop of \<^verbatim>\<open>getPathValue\<close> over the parts of the path.\<close>

fun walkPath :: "jsval \<Rightarrow> string list \<Rightarrow> jsval" where
  "walkPath current [] = current"
| "walkPath current (part # parts) =
     (if \<not> truthy current \<or> \<not> typeof_object current then JUndefined
      else (let v = get_prop current part
            in if v = JUndefined then JUndefined else walkPath v parts))"

definition getPathValue :: "jsval \<Rightarrow> string \<Rightarrow> jsval" where
  "getPathValue source path = (if path = [] then source else walkPath source (split_dot path))"

text \<open>
  The four-way \<^verbatim>\<open>switch (root)\<close> shared (textually repeated) by the two resolvers:
  the source value of a recognised root, or nothing.
\<close>

definition rootSource :: "string \<Rightarrow> TemplateContext \<Rightarrow> jsval option" where
  "rootSource root ctx =
     (if root = ''input'' then Some (inputData ctx)
      else if root = ''steps'' then Some (ctxSteps ctx)
      else if root = ''init'' then Some (initData ctx)
      else if root = ''requestContext'' then Some (requestContext ctx)
      else None)"

definition resolutionFailed :: "string \<Rightarrow> string \<Rightarrow> error" where
  "resolutionFailed root path =
     Error (trim (''Template resolution failed for '' @ root @ ''.'' @ path))"

definition unknownRoot :: "string \<Rightarrow> error" where
  "unknownRoot root = Error (''Unknown template root: '' @ root)"

text \<open>The replacer callback of \<^verbatim>\<open>resolveTemplateString\<close>, applied to the text between the braces.\<close>

definition replaceExpr :: "string \<Rightarrow> TemplateContext \<Rightarrow> error + string" where
  "replaceExpr expr ctx =
     (let trimmed = trim expr;
          root = hd (split_dot trimmed);
          path = join ''.'' (tl (split_dot trimmed))
      in (case rootSource root ctx of
            None \<Rightarrow> Inl (unknownRoot root)
          | Some source \<Rightarrow>
              (let resolved = getPathValue source path
               in if resolved = JUndefined then Inl (resolutionFailed root path)
                  else js_String resolved)))"

abbreviation notClose :: "char \<Rightarrow> bool" where
  "notClose \<equiv> (\<lambda>x. x \<noteq> CHR ''}'')"

text \<open>
  \<^verbatim>\<open>value.replace(pattern, callback)\<close> with the global pattern "dollar sign, opening
  brace, one or more characters other than the closing brace, closing brace". Scanning
  resumes after a match; the first failing callback aborts the whole replacement.
\<close>

function resolveTemplateString :: "string \<Rightarrow> TemplateContext \<Rightarrow> error + string" where
  "resolveTemplateString [] ctx = Inr []"
| "resolveTemplateString (c # cs) ctx =
     (if c = CHR ''$'' \<and> cs \<noteq> [] \<and> hd cs = CHR ''{''
         \<and> takeWhile notClose (tl cs) \<noteq> [] \<and> dropWhile notClose (tl cs) \<noteq> []
      then (case replaceExpr (takeWhile notClose (tl cs)) ctx of
              Inl e \<Rightarrow> Inl e
            | Inr r \<Rightarrow>
                (case resolveTemplateString (tl (dropWhile notClose (tl cs))) ctx of
                   Inl e \<Rightarrow> Inl e
                 | Inr t \<Rightarrow> Inr (r @ t)))
      else (case resolveTemplateString cs ctx of
              Inl e \<Rightarrow> Inl e
            | Inr t \<Rightarrow> Inr (c # t)))"
  by pat_completeness auto
termination
proof (relation "measure (\<lambda>(s, c). length s)")
  fix c :: char and cs :: string and ctx :: TemplateContext
  have "length (tl (dropWhile notClose (tl cs))) \<le> length cs"
    by (metis diff_le_self le_trans length_dropWhile_le length_tl)
  then show "((tl (dropWhile notClose (tl cs)), ctx), (c # cs, ctx))
      \<in> measure (\<lambda>(s, c). length s)"
    by simp
qed auto

definition normalizePathExpression :: "string \<Rightarrow> string" where
  "normalizePathExpression expression =
     (let trimmed = trim expression
      in if take 2 trimmed = ''$.'' then drop 2 trimmed
         else if take 1 trimmed = ''$'' then drop 1 trimmed
         else trimmed)"

definition resolvePathExpression :: "string \<Rightarrow> TemplateContext \<Rightarrow> error + jsval" where
  "resolvePathExpression expression ctx =
     (let normalized = normalizePathExpression expression;
          root = hd (split_dot normalized);
          path = join ''.'' (tl (split_dot normalized))
      in (case rootSource root ctx of
            None \<Rightarrow> Inl (unknownRoot root)
          | Some source \<Rightarrow>
              (let resolved = getPathValue source path
               in if resolved = JUndefined then Inl (resolutionFailed root path)
                  else Inr resolved)))"

definition isPathExpression :: "jsval \<Rightarrow> bool" where
  "isPathExpression v =
     (case entries v of
        [(k, e)] \<Rightarrow> k = ''$path'' \<or> k = ''$jsonPath''
      | _ \<Rightarrow> False)"

fun resolveTemplates :: "jsval \<Rightarrow> TemplateContext \<Rightarrow> error + jsval" where
  "resolveTemplates (JStr s) ctx =
     (case resolveTemplateString s ctx of Inl e \<Rightarrow> Inl e | Inr r \<Rightarrow> Inr (JStr r))"
| "resolveTemplates (JArr xs) ctx =
     (case sequence_sum (map (\<lambda>item. resolveTemplates item ctx) xs) of
        Inl e \<Rightarrow> Inl e
      | Inr vs \<Rightarrow> Inr (JArr vs))"
| "resolveTemplates (JObj kvs) ctx =
     (if isPathExpression (JObj kvs)
      then (let p = get_prop (JObj kvs) ''$path'';
                expression = (if p = JUndefined \<or> p = JNull
                              then get_prop (JObj kvs) ''$jsonPath'' else p)
            in (case expression of
                  JStr e \<Rightarrow> resolvePathExpression e ctx
                | _ \<Rightarrow> Inl (Error ''Path expression must be a string.'')))
      else (case sequence_sum
                   (map (\<lambda>kv. case resolveTemplates (snd kv) ctx of
                                 Inl e \<Rightarrow> Inl e
                               | Inr v \<Rightarrow> Inr (fst kv, v)) kvs) of
              Inl e \<Rightarrow> Inl e
            | Inr kvs' \<Rightarrow> Inr (JObj kvs')))"
| "resolveTemplates v ctx = Inr v"

section \<open>Specification model\<close>

text \<open>
  The step union of \<^verbatim>\<open>spec.ts\<close>. The steps extending \<^verbatim>\<open>StepBase\<close> (id, input schema,
  output schema) are one constructor carrying the variant, with the fields that name its
  handler; an absent optional field of untyped content is \<open>JUndefined\<close>. Fields that
  neither validation nor graph building reads (descriptions, retries, prompts' options)
  are left out.
\<close>

datatype leaf_kind =
    KStep string
  | KAgent string
  | KTool string
  | KMcp string string
  | KNetwork string
  | KTts
  | KListen
  | KDocumentChunk
  | KDocumentMetadata
  | KDocumentTransform
  | KGraphRag
  | KGraphRagQuery
  | KEvals string
  | KMemory string
  | KVectorStore string
  | KRag string
  | KHttp string
  | KLogger string
  | KRequestContext string

text \<open>A branch's \<^verbatim>\<open>when\<close> and a loop's \<^verbatim>\<open>condition\<close>: handler id and parameters.\<close>

datatype condition = Condition (cond_handler: string) (cond_params: jsval)

datatype step =
    Leaf leaf_kind string jsval jsval jsval
  | SleepStep int "string option"
  | SleepUntilStep string "string option"
  | HumanInputStep string "string option"
  | BailStep "string option" jsval "string option"
  | SuspendStep string "string option"
  | ResumeStep jsval "string option"
  | MapStep jsval "string option"
  | WorkflowStep string jsval
  | ForeachStep "int option" step
  | BranchStep "branch list"
  | ParallelStep "step list"
  | DoWhileStep step condition
  | DoUntilStep step condition
and branch = Branch (branch_when: condition) (branch_steps: "step list")

datatype mode = Strict | Warn


text \<open>The step's \<^verbatim>\<open>type\<close> tag.\<close>

fun kind_type :: "leaf_kind \<Rightarrow> string" where
  "kind_type (KStep a) = ''step''"
| "kind_type (KAgent a) = ''agent''"
| "kind_type (KTool t) = ''tool''"
| "kind_type (KMcp s t) = ''mcp''"
| "kind_type (KNetwork n) = ''network''"
| "kind_type KTts = ''tts''"
| "kind_type KListen = ''listen''"
| "kind_type KDocumentChunk = ''documentChunk''"
| "kind_type KDocumentMetadata = ''documentMetadata''"
| "kind_type KDocumentTransform = ''documentTransform''"
| "kind_type KGraphRag = ''graphRag''"
| "kind_type KGraphRagQuery = ''graphRagQuery''"
| "kind_type (KEvals s) = ''evals''"
| "kind_type (KMemory h) = ''memory''"
| "kind_type (KVectorStore h) = ''vectorStore''"
| "kind_type (KRag h) = ''rag''"
| "kind_type (KHttp h) = ''http''"
| "kind_type (KLogger h) = ''logger''"
| "kind_type (KRequestContext h) = ''requestContext''"

fun step_type :: "step \<Rightarrow> string" where
  "step_type (Leaf k i inp out ps) = kind_type k"
| "step_type (SleepStep ms i) = ''sleep''"
| "step_type (SleepUntilStep d i) = ''sleepUntil''"
| "step_type (HumanInputStep pr i) = ''humanInput''"
| "step_type (BailStep w pl i) = ''bail''"
| "step_type (SuspendStep pr i) = ''suspend''"
| "step_type (ResumeStep d i) = ''resume''"
| "step_type (MapStep m i) = ''map''"
| "step_type (WorkflowStep w im) = ''workflow''"
| "step_type (ForeachStep c b) = ''foreach''"
| "step_type (BranchStep bs) = ''branch''"
| "step_type (ParallelStep ps) = ''parallel''"
| "step_type (DoWhileStep b c) = ''dowhile''"
| "step_type (DoUntilStep b c) = ''dountil''"

text \<open>\<^verbatim>\<open>"id" in step && typeof step.id === "string"\<close>: the id, when the step has one.\<close>

fun stepId :: "step \<Rightarrow> string option" where
  "stepId (Leaf k i inp out ps) = Some i"
| "stepId (SleepStep ms i) = i"
| "stepId (SleepUntilStep d i) = i"
| "stepId (HumanInputStep pr i) = i"
| "stepId (BailStep w pl i) = i"
| "stepId (SuspendStep pr i) = i"
| "stepId (ResumeStep d i) = i"
| "stepId (MapStep m i) = i"
| "stepId s = None"

section \<open>Schema compatibility validator\<close>

text \<open>
  A schema is a value of the declared type \<^verbatim>\<open>JsonSchema\<close>, an object or an array, or
  \<open>JUndefined\<close> where the source has \<^verbatim>\<open>JsonSchema | undefined\<close>. The accessors below are
  total; on a schema that is a number, a string or a boolean, which the declared type
  excludes, the \<^verbatim>\<open>in\<close> operator of \<^verbatim>\<open>getScalarConstraints\<close> would raise a TypeError
  that is not represented.
\<close>

datatype severity = SevWarning | SevError

record SchemaIssue =
  message :: string
  path :: string
  severity :: severity

subsection \<open>Schema accessors\<close>

definition getSchemaType :: "jsval \<Rightarrow> jsval" where
  "getSchemaType schema =
     (if \<not> truthy schema \<or> isArray schema then JUndefined
      else (let typeValue = get_prop schema ''type''
            in if isString typeValue then typeValue
               else (case typeValue of
                       JArr ts \<Rightarrow> if list_all isString ts then typeValue else JUndefined
                     | _ \<Rightarrow> JUndefined)))"

definition getUnionSchemas :: "jsval \<Rightarrow> jsval list" where
  "getUnionSchemas schema =
     (if \<not> truthy schema \<or> isArray schema then []
      else (case get_prop schema ''oneOf'' of
              JArr vs \<Rightarrow> vs
            | _ \<Rightarrow> (case get_prop schema ''anyOf'' of
                       JArr vs \<Rightarrow> vs
                     | _ \<Rightarrow> [])))"

definition isNullable :: "jsval \<Rightarrow> bool" where
  "isNullable schema =
     (case getSchemaType schema of
        JArr ts \<Rightarrow> JStr ''null'' \<in> set ts
      | t \<Rightarrow> if t = JStr ''null'' then True
             else list_ex (\<lambda>candidate. getSchemaType candidate = JStr ''null'')
                    (getUnionSchemas schema))"

definition normalizeSchema :: "jsval \<Rightarrow> jsval" where
  "normalizeSchema schema =
     (if \<not> truthy schema \<or> isArray schema then schema
      else if length (getUnionSchemas schema) > 0 then schema
      else schema)"

definition constraintKeys :: "string list" where
  "constraintKeys = [''minLength'', ''maxLength'', ''pattern'', ''minimum'', ''maximum'',
     ''exclusiveMinimum'', ''exclusiveMaximum'', ''enum'']"

definition getScalarConstraints :: "jsval \<Rightarrow> (string \<times> jsval) list" where
  "getScalarConstraints schema =
     (if \<not> truthy schema \<or> isArray schema then []
      else map (\<lambda>key. (key, get_prop schema key)) (filter (\<lambda>key. js_in key schema) constraintKeys))"

text \<open>
  \<^verbatim>\<open>array.includes(value)\<close> compares primitives by value and objects by identity; the
  arrays and objects of two schemas are taken to be distinct objects.
\<close>

fun primitive :: "jsval \<Rightarrow> bool" where
  "primitive (JArr xs) = False"
| "primitive (JObj kvs) = False"
| "primitive (JBuiltin b) = False"
| "primitive v = True"

definition array_includes :: "jsval list \<Rightarrow> jsval \<Rightarrow> bool" where
  "array_includes xs v = (primitive v \<and> v \<in> set xs)"

definition isEnumCompatible :: "jsval \<Rightarrow> jsval \<Rightarrow> bool" where
  "isEnumCompatible outputSchema inputSchema =
     (if \<not> truthy outputSchema \<or> isArray outputSchema \<or> \<not> truthy inputSchema \<or> isArray inputSchema
      then True
      else (case (get_prop outputSchema ''enum'', get_prop inputSchema ''enum'') of
              (JArr outputEnum, JArr inputEnum) \<Rightarrow> list_all (array_includes outputEnum) inputEnum
            | _ \<Rightarrow> True))"

text \<open>The list of type names of a declared type: the array's elements, or the one string.\<close>

fun typeList :: "jsval \<Rightarrow> jsval list" where
  "typeList (JArr ts) = ts"
| "typeList t = [t]"

definition typeIncludes :: "jsval \<Rightarrow> jsval \<Rightarrow> bool" where
  "typeIncludes outputType inputType =
     (if \<not> truthy inputType \<or> \<not> truthy outputType then True
      else list_all (array_includes (typeList outputType)) (typeList inputType))"

definition getObjectProps :: "jsval \<Rightarrow> jsval" where
  "getObjectProps schema =
     (if \<not> truthy schema \<or> isArray schema then JUndefined
      else if get_prop schema ''type'' \<noteq> JStr ''object'' then JUndefined
      else (let props = get_prop schema ''properties''
            in if \<not> truthy props \<or> \<not> typeof_object props then JUndefined else props))"

fun the_string :: "jsval \<Rightarrow> string" where
  "the_string (JStr s) = s"
| "the_string v = []"

definition getRequired :: "jsval \<Rightarrow> string list" where
  "getRequired schema =
     (if \<not> truthy schema \<or> isArray schema then []
      else (case get_prop schema ''required'' of
              JArr items \<Rightarrow> map the_string (filter isString items)
            | _ \<Rightarrow> []))"

definition getArrayItems :: "jsval \<Rightarrow> jsval" where
  "getArrayItems schema =
     (if \<not> truthy schema \<or> isArray schema then JUndefined
      else if get_prop schema ''type'' \<noteq> JStr ''array'' then JUndefined
      else (let items = get_prop schema ''items''
            in if \<not> truthy items \<or> \<not> typeof_object items then JUndefined else items))"

definition isArraySchema :: "jsval \<Rightarrow> bool" where
  "isArraySchema schema =
     (if \<not> truthy schema \<or> isArray schema then False
      else (case get_prop schema ''type'' of
              JStr t \<Rightarrow> t = ''array''
            | JArr ts \<Rightarrow> JStr ''array'' \<in> set ts
            | _ \<Rightarrow> False))"

subsection \<open>Rendering of values in messages\<close>

definition hex4 :: "nat \<Rightarrow> string" where
  "hex4 n = [CHR ''0'', CHR ''0'', ''0123456789abcdef'' ! (n div 16), ''0123456789abcdef'' ! (n mod 16)]"

definition json_escape :: "char \<Rightarrow> string" where
  "json_escape c =
     (if c = CHR 0x22 then [CHR 0x5C, CHR 0x22]
      else if c = CHR 0x5C then [CHR 0x5C, CHR 0x5C]
      else if c = CHR 0x08 then [CHR 0x5C, CHR ''b'']
      else if c = CHR 0x0C then [CHR 0x5C, CHR ''f'']
      else if c = CHR 0x0A then [CHR 0x5C, CHR ''n'']
      else if c = CHR 0x0D then [CHR 0x5C, CHR ''r'']
      else if c = CHR 0x09 then [CHR 0x5C, CHR ''t'']
      else if (of_char c :: nat) < 32 then [CHR 0x5C, CHR ''u''] @ hex4 (of_char c)
      else [c])"

definition json_quote :: "string \<Rightarrow> string" where
  "json_quote s = CHR 0x22 # concat (map json_escape s) @ [CHR 0x22]"

text \<open>
  \<^verbatim>\<open>JSON.stringify(v)\<close> as interpolated into a template literal. A number that is not
  finite is rendered \<^verbatim>\<open>null\<close>; a function is treated like \<^verbatim>\<open>undefined\<close>.
\<close>

fun unserializable :: "jsval \<Rightarrow> bool" where
  "unserializable JUndefined = True"
| "unserializable (JBuiltin (NativeFunction n)) = True"
| "unserializable v = False"

fun JSON_stringify :: "jsval \<Rightarrow> string" where
  "JSON_stringify JUndefined = ''undefined''"
| "JSON_stringify JNull = ''null''"
| "JSON_stringify (JBool b) = (if b then ''true'' else ''false'')"
| "JSON_stringify (JNum n) =
     (if n = ''NaN'' \<or> n = ''Infinity'' \<or> n = ''-Infinity'' then ''null'' else n)"
| "JSON_stringify (JStr s) = json_quote s"
| "JSON_stringify (JArr xs) =
     ''['' @ join '','' (map (\<lambda>x. if unserializable x then ''null'' else JSON_stringify x) xs) @ '']''"
| "JSON_stringify (JObj kvs) =
     ''{'' @ join '','' (map (\<lambda>kv. json_quote (fst kv) @ '':'' @ JSON_stringify (snd kv))
                          (filter (\<lambda>kv. \<not> unserializable (snd kv)) kvs)) @ ''}''"
| "JSON_stringify (JBuiltin ObjectPrototype) = ''{}''"
| "JSON_stringify (JBuiltin ArrayPrototype) = ''[]''"
| "JSON_stringify (JBuiltin (NativeFunction n)) = ''undefined''"

subsection \<open>Compatibility of a producer and a consumer schema\<close>

lemma normalizeSchema_id [simp]: "normalizeSchema schema = schema"
  by (simp add: normalizeSchema_def)

lemma size_map_of: "map_of kvs k = Some v \<Longrightarrow> size v < Suc (size_list (size_prod (\<lambda>_. 0) size) kvs)"
  by (induction kvs) (auto split: if_splits)

lemma array_index_less: "array_index k n = Some i \<Longrightarrow> i < n"
  by (auto simp: array_index_def find_Some_iff)

lemma size_member: "x \<in> set xs \<Longrightarrow> size x < Suc (size_list size xs)"
  by (induction xs) auto

lemma size_nth: "i < length xs \<Longrightarrow> size (xs ! i) < Suc (size_list size xs)"
  by (simp add: size_member)

lemma size_get_items:
  "truthy (get_prop v ''items'') \<Longrightarrow> typeof_object (get_prop v ''items'')
   \<Longrightarrow> size (get_prop v ''items'') < size v"
proof (cases v)
  case (JBuiltin b)
  assume "truthy (get_prop v ''items'')"
  with JBuiltin show ?thesis
    by (cases b) simp_all
qed (auto split: option.splits if_splits dest: size_map_of array_index_less size_nth)

lemma size_getArrayItems: "truthy (getArrayItems schema) \<Longrightarrow> size (getArrayItems schema) < size schema"
  by (auto simp: getArrayItems_def Let_def size_get_items split: if_splits)

definition typeMismatchMessage :: "jsval \<Rightarrow> jsval \<Rightarrow> string" where
  "typeMismatchMessage outputType inputType =
     ''Schema type mismatch. Output type '' @ JSON_stringify outputType
       @ '' does not satisfy input type '' @ JSON_stringify inputType @ ''.''"

definition missingKeyIssue :: "string \<Rightarrow> string \<Rightarrow> SchemaIssue" where
  "missingKeyIssue p key =
     \<lparr>message = ''Output schema missing required key '' @ [CHR 0x27] @ key @ [CHR 0x27]
                  @ '' expected by next step input.'',
      path = p, severity = SevWarning\<rparr>"

definition modeSeverity :: "mode \<Rightarrow> severity" where
  "modeSeverity mode = (if mode = Strict then SevError else SevWarning)"

function validateSchemaCompatibility :: "jsval \<Rightarrow> jsval \<Rightarrow> string \<Rightarrow> mode \<Rightarrow> SchemaIssue list" where
  "validateSchemaCompatibility outputSchema inputSchema p mode =
     (if \<not> truthy outputSchema \<or> \<not> truthy inputSchema then []
      else
        (let normalizedOutput = normalizeSchema outputSchema;
             normalizedInput = normalizeSchema inputSchema;
             outputType = getSchemaType normalizedOutput;
             inputType = getSchemaType normalizedInput
         in if \<not> typeIncludes outputType inputType
            then [\<lparr>message = typeMismatchMessage outputType inputType,
                   path = p, severity = modeSeverity mode\<rparr>]
            else
              (if isNullable normalizedInput \<and> \<not> isNullable normalizedOutput
               then [\<lparr>message = ''Input allows null but output does not appear to be nullable.'',
                      path = p, severity = SevWarning\<rparr>]
               else [])
              @ (if \<not> isEnumCompatible normalizedOutput normalizedInput
                 then [\<lparr>message = ''Output enum does not cover all values required by input enum.'',
                        path = p, severity = modeSeverity mode\<rparr>]
                 else [])
              @ (if length (getScalarConstraints normalizedInput) > 0
                    \<and> length (getScalarConstraints normalizedOutput) = 0
                 then [\<lparr>message = ''Input schema has constraints that are not present in output schema.'',
                        path = p, severity = SevWarning\<rparr>]
                 else [])
              @ (if inputType = JStr ''object'' \<and> outputType = JStr ''object''
                 then (let required = getRequired normalizedInput;
                           outputProps = (if getObjectProps normalizedOutput = JUndefined then JObj []
                                          else getObjectProps normalizedOutput)
                       in map (missingKeyIssue p) (filter (\<lambda>key. \<not> js_in key outputProps) required))
                 else [])
              @ (if inputType = JStr ''array'' \<and> outputType = JStr ''array''
                    \<and> truthy (getArrayItems normalizedOutput) \<and> truthy (getArrayItems normalizedInput)
                 then validateSchemaCompatibility (getArrayItems normalizedOutput)
                        (getArrayItems normalizedInput) (p @ ''.items'') mode
                 else [])))"
  by pat_completeness auto
termination
  by (relation "measure (\<lambda>(outputSchema, inputSchema, p, mode). size outputSchema)")
     (auto simp: size_getArrayItems)

declare validateSchemaCompatibility.simps [simp del]

subsection \<open>Mapping tables\<close>

text \<open>
  \<^verbatim>\<open>String(stepId)\<close> inside a message. Validation is modelled as a total function to the
  list of its issues; the one value the conversion raises a TypeError for, an object
  with a \<^verbatim>\<open>toString\<close> entry of its own given as stepId, is rendered as the empty string.
\<close>

definition messageString :: "jsval \<Rightarrow> string" where
  "messageString v = (case js_String v of Inl e \<Rightarrow> [] | Inr s \<Rightarrow> s)"

lemma messageString_JStr [simp]: "messageString (JStr s) = s"
  by (simp add: messageString_def)

definition mappingIssues :: "string set \<Rightarrow> string \<Rightarrow> string \<times> jsval \<Rightarrow> SchemaIssue list" where
  "mappingIssues availableSteps p entry =
     (let key = fst entry; mapping = snd entry
      in if \<not> truthy mapping \<or> \<not> typeof_object mapping
         then [\<lparr>message = ''Mapping entry must be an object.'',
                path = p @ ''.'' @ key, severity = SevError\<rparr>]
         else if js_in ''value'' mapping then []
         else
           (let from = get_prop mapping ''from'';
                stepId = get_prop mapping ''stepId'';
                pathValue = get_prop mapping ''path''
            in (if from = JStr ''step''
                     \<and> (\<not> isString stepId \<or> the_string stepId \<notin> availableSteps)
                then [\<lparr>message = ''Mapping references unknown step '' @ [CHR 0x27]
                                    @ messageString stepId @ [CHR 0x27] @ ''.'',
                       path = p @ ''.'' @ key, severity = SevError\<rparr>]
                else [])
             @ (if from \<noteq> JStr ''step'' \<and> from \<noteq> JStr ''init'' \<and> from \<noteq> JStr ''requestContext''
                then [\<lparr>message = ''Mapping '' @ [CHR 0x27] @ ''from'' @ [CHR 0x27]
                                    @ '' must be one of '' @ [CHR 0x27] @ ''step'' @ [CHR 0x27]
                                    @ '', '' @ [CHR 0x27] @ ''init'' @ [CHR 0x27]
                                    @ '', or '' @ [CHR 0x27] @ ''requestContext'' @ [CHR 0x27] @ ''.'',
                       path = p @ ''.'' @ key, severity = SevError\<rparr>]
                else [])
             @ (if from \<noteq> JStr ''step'' \<and> \<not> isString pathValue
                then [\<lparr>message = ''Mapping path should be a string.'',
                       path = p @ ''.'' @ key, severity = SevWarning\<rparr>]
                else [])))"

definition validateMappings :: "jsval \<Rightarrow> string set \<Rightarrow> string \<Rightarrow> SchemaIssue list" where
  "validateMappings mappings availableSteps p =
     concat (map (mappingIssues availableSteps p) (entries mappings))"

subsection \<open>Walking a step sequence\<close>

fun schemaFromStep :: "step \<Rightarrow> jsval" where
  "schemaFromStep (Leaf k i inp out ps) = out"
| "schemaFromStep s = JUndefined"

fun inputSchemaFromStep :: "step \<Rightarrow> jsval" where
  "inputSchemaFromStep (Leaf k i inp out ps) = inp"
| "inputSchemaFromStep s = JUndefined"

fun computeForeachOutput :: "step \<Rightarrow> jsval" where
  "computeForeachOutput (ForeachStep c body) =
     (let itemOutput = schemaFromStep body
      in if \<not> truthy itemOutput then JUndefined
         else JObj [(''type'', JStr ''array''), (''items'', itemOutput)])"
| "computeForeachOutput s = schemaFromStep s"

text \<open>The first loop of \<^verbatim>\<open>validateSequence\<close>: the ids of all steps of the sequence.\<close>

definition availableSteps :: "step list \<Rightarrow> string set" where
  "availableSteps steps = set (List.map_filter stepId steps)"

definition opaqueObject :: jsval where
  "opaqueObject = JObj [(''type'', JStr ''object'')]"

definition foreachIssue :: "string \<Rightarrow> nat \<Rightarrow> mode \<Rightarrow> SchemaIssue" where
  "foreachIssue p index mode =
     \<lparr>message = ''Foreach expects previous output to be an array schema.'',
      path = p @ ''.steps.'' @ show_nat index, severity = modeSeverity mode\<rparr>"

text \<open>
  \<open>seqLoop\<close> is the \<^verbatim>\<open>steps.forEach\<close> of \<^verbatim>\<open>validateSequence\<close> from a given index, with the
  carried-forward \<^verbatim>\<open>prevOutput\<close> as an argument; \<open>branchesLoop\<close> is the inner
  \<^verbatim>\<open>step.branches.forEach\<close>, whose call of \<^verbatim>\<open>validateSequence\<close> on an arm is the loop
  over the arm from index 0 with the arm's own ids.
\<close>

function (sequential)
  seqLoop :: "string set \<Rightarrow> string \<Rightarrow> mode \<Rightarrow> nat \<Rightarrow> jsval \<Rightarrow> step list \<Rightarrow> SchemaIssue list"
  and branchesLoop :: "string \<Rightarrow> mode \<Rightarrow> nat \<Rightarrow> jsval \<Rightarrow> nat \<Rightarrow> branch list \<Rightarrow> SchemaIssue list"
where
  "seqLoop avail p mode index prevOutput [] = []"
| "seqLoop avail p mode index prevOutput (BranchStep branches # rest) =
     branchesLoop p mode index prevOutput 0 branches
     @ seqLoop avail p mode (Suc index) JUndefined rest"
| "seqLoop avail p mode index prevOutput (ParallelStep psteps # rest) =
     concat (map (\<lambda>(parallelIndex, parallelStep).
                    validateSchemaCompatibility prevOutput (inputSchemaFromStep parallelStep)
                      (p @ ''.parallel.'' @ show_nat index @ ''.'' @ show_nat parallelIndex) mode)
                 (enumerate 0 psteps))
     @ seqLoop avail p mode (Suc index) JUndefined rest"
| "seqLoop avail p mode index prevOutput (MapStep mappings mid # rest) =
     validateMappings mappings avail (p @ ''.map.'' @ show_nat index)
     @ seqLoop avail p mode (Suc index) opaqueObject rest"
| "seqLoop avail p mode index prevOutput (ForeachStep c body # rest) =
     (if truthy prevOutput \<and> \<not> isArraySchema prevOutput
      then [foreachIssue p index mode] else [])
     @ validateSchemaCompatibility prevOutput (inputSchemaFromStep (ForeachStep c body))
         (p @ ''.steps.'' @ show_nat index) mode
     @ seqLoop avail p mode (Suc index) (computeForeachOutput (ForeachStep c body)) rest"
| "seqLoop avail p mode index prevOutput (WorkflowStep wid inputMapping # rest) =
     (if truthy inputMapping
      then validateMappings inputMapping avail (p @ ''.workflow.'' @ show_nat index) else [])
     @ seqLoop avail p mode (Suc index) opaqueObject rest"
| "seqLoop avail p mode index prevOutput (SleepStep ms sid # rest) =
     seqLoop avail p mode (Suc index) prevOutput rest"
| "seqLoop avail p mode index prevOutput (SleepUntilStep d sid # rest) =
     seqLoop avail p mode (Suc index) prevOutput rest"
| "seqLoop avail p mode index prevOutput (step # rest) =
     validateSchemaCompatibility prevOutput (inputSchemaFromStep step)
       (p @ ''.steps.'' @ show_nat index) mode
     @ seqLoop avail p mode (Suc index) (schemaFromStep step) rest"
| "branchesLoop p mode index prevOutput branchIndex [] = []"
| "branchesLoop p mode index prevOutput branchIndex (b # bs) =
     validateSchemaCompatibility prevOutput
       (case branch_steps b of [] \<Rightarrow> JUndefined | first # others \<Rightarrow> inputSchemaFromStep first)
       (p @ ''.branch.'' @ show_nat index @ ''.branches.'' @ show_nat branchIndex) mode
     @ seqLoop (availableSteps (branch_steps b))
         (p @ ''.branch.'' @ show_nat index @ ''.branches.'' @ show_nat branchIndex @ ''.steps'')
         mode 0 prevOutput (branch_steps b)
     @ branchesLoop p mode index prevOutput (Suc branchIndex) bs"
  by pat_completeness auto
termination
  by (relation "measure (\<lambda>x. case x of
          Inl (avail, p, mode, index, prevOutput, steps) \<Rightarrow> size_list size steps
        | Inr (p, mode, index, prevOutput, branchIndex, branches) \<Rightarrow> size_list size branches)")
     (auto split: branch.splits, (case_tac b, simp)+)

definition validateSequence :: "step list \<Rightarrow> string \<Rightarrow> mode \<Rightarrow> jsval \<Rightarrow> SchemaIssue list" where
  "validateSequence steps p mode inputSchema = seqLoop (availableSteps steps) p mode 0 inputSchema steps"

subsection \<open>Visiting every step of the tree\<close>

text \<open>
  \<^verbatim>\<open>visitSteps\<close> calls the visitor, which updates its captured variables; the visitor is a
  function on the state it captures, and the walk threads that state in call order.
\<close>

function (sequential)
  visitSteps :: "(step \<Rightarrow> string \<Rightarrow> 's \<Rightarrow> 's) \<Rightarrow> string \<Rightarrow> nat \<Rightarrow> step list \<Rightarrow> 's \<Rightarrow> 's"
  and visitBranches :: "(step \<Rightarrow> string \<Rightarrow> 's \<Rightarrow> 's) \<Rightarrow> string \<Rightarrow> nat \<Rightarrow> branch list \<Rightarrow> 's \<Rightarrow> 's"
where
  "visitSteps visit basePath index [] st = st"
| "visitSteps visit basePath index (BranchStep branches # rest) st =
     (let stepPath = basePath @ ''.'' @ show_nat index
      in visitSteps visit basePath (Suc index) rest
           (visitBranches visit stepPath 0 branches (visit (BranchStep branches) stepPath st)))"
| "visitSteps visit basePath index (ParallelStep psteps # rest) st =
     (let stepPath = basePath @ ''.'' @ show_nat index
      in visitSteps visit basePath (Suc index) rest
           (visitSteps visit (stepPath @ ''.steps'') 0 psteps (visit (ParallelStep psteps) stepPath st)))"
| "visitSteps visit basePath index (ForeachStep c body # rest) st =
     (let stepPath = basePath @ ''.'' @ show_nat index
      in visitSteps visit basePath (Suc index) rest
           (visitSteps visit (stepPath @ ''.step'') 0 [body] (visit (ForeachStep c body) stepPath st)))"
| "visitSteps visit basePath index (DoWhileStep body cond # rest) st =
     (let stepPath = basePath @ ''.'' @ show_nat index
      in visitSteps visit basePath (Suc index) rest
           (visitSteps visit (stepPath @ ''.step'') 0 [body] (visit (DoWhileStep body cond) stepPath st)))"
| "visitSteps visit basePath index (DoUntilStep body cond # rest) st =
     (let stepPath = basePath @ ''.'' @ show_nat index
      in visitSteps visit basePath (Suc index) rest
           (visitSteps visit (stepPath @ ''.step'') 0 [body] (visit (DoUntilStep body cond) stepPath st)))"
| "visitSteps visit basePath index (step # rest) st =
     (let stepPath = basePath @ ''.'' @ show_nat index
      in visitSteps visit basePath (Suc index) rest (visit step stepPath st))"
| "visitBranches visit stepPath branchIndex [] st = st"
| "visitBranches visit stepPath branchIndex (b # bs) st =
     visitBranches visit stepPath (Suc branchIndex) bs
       (visitSteps visit (stepPath @ ''.branches.'' @ show_nat branchIndex @ ''.steps'') 0
          (branch_steps b) st)"
  by pat_completeness auto
termination
  by (relation "measure (\<lambda>x. case x of
          Inl (visit, basePath, index, steps, st) \<Rightarrow> size_list size steps
        | Inr (visit, stepPath, branchIndex, branches, st) \<Rightarrow> size_list size branches)")
     (auto split: branch.splits, (case_tac b, simp)+)

subsection \<open>Unique step ids\<close>




subsection \<open>Handler existence\<close>

text \<open>
  The registry is a table of named buckets (\<^verbatim>\<open>handlers\<close>, \<^verbatim>\<open>agents\<close>, \<^verbatim>\<open>tools\<close>,
  \<^verbatim>\<open>workflows\<close>, \<^verbatim>\<open>memory\<close>, ...). The code only reads it, by \<^verbatim>\<open>registry[bucket]\<close> and
  then \<^verbatim>\<open>[name]\<close>, and only tests what it finds for truthiness; so the registry is
  modelled by what these reads find. \<open>registry bucket\<close> is \<open>None\<close> when \<^verbatim>\<open>registry[bucket]\<close>
  is undefined, and otherwise the set of the names whose read in that bucket yields a
  truthy value. What an entry is (a function, an agent, a workflow) is the runtime's
  business: entries are truthy. The reads are property reads: in a bucket that is an
  ordinary object they find, besides its entries, the members it inherits, all of them
  truthy (\<open>plainBucket\<close>).
\<close>

type_synonym HandlerRegistry = "string \<Rightarrow> string set option"

definition plainBucket :: "string set \<Rightarrow> string set" where
  "plainBucket names = names \<union> set objectPrototypeNames"

text \<open>\<^verbatim>\<open>Boolean(registry[bucket]?.[name])\<close>\<close>

definition bucketHas :: "HandlerRegistry \<Rightarrow> string \<Rightarrow> string \<Rightarrow> bool" where
  "bucketHas registry bucket name = (case registry bucket of None \<Rightarrow> False | Some names \<Rightarrow> name \<in> names)"

text \<open>
  \<^verbatim>\<open>const [namespace, name] = handlerId.includes(".") ? handlerId.split(".") : ["handlers", handlerId]\<close>
\<close>

definition splitHandlerId :: "string \<Rightarrow> string \<times> string" where
  "splitHandlerId handlerId =
     (if CHR ''.'' \<in> set handlerId
      then (hd (split_dot handlerId), hd (tl (split_dot handlerId)))
      else (''handlers'', handlerId))"

definition handlerExists :: "HandlerRegistry \<Rightarrow> string \<Rightarrow> bool" where
  "handlerExists registry handlerId =
     (let namespace = fst (splitHandlerId handlerId); name = snd (splitHandlerId handlerId)
      in if namespace = ''handlers'' then bucketHas registry ''handlers'' name
         else if namespace = ''agent'' then bucketHas registry ''agents'' name
         else if namespace = ''tool'' then bucketHas registry ''tools'' name
         else bucketHas registry namespace name)"

definition missingIssue :: "string \<Rightarrow> string \<Rightarrow> string \<Rightarrow> SchemaIssue" where
  "missingIssue what name location =
     \<lparr>message = ''Missing '' @ what @ '': '' @ name @ ''.'', path = location, severity = SevError\<rparr>"

text \<open>The fields \<^verbatim>\<open>action\<close>, \<^verbatim>\<open>agent\<close> and \<^verbatim>\<open>tool\<close> of a step, where it has them.\<close>

fun stepAction :: "step \<Rightarrow> string option" where
  "stepAction (Leaf (KStep a) i inp out ps) = Some a"
| "stepAction s = None"

fun stepAgent :: "step \<Rightarrow> string option" where
  "stepAgent (Leaf (KAgent a) i inp out ps) = Some a"
| "stepAgent s = None"

fun stepTool :: "step \<Rightarrow> string option" where
  "stepTool (Leaf (KTool t) i inp out ps) = Some t"
| "stepTool (Leaf (KMcp srv t) i inp out ps) = Some t"
| "stepTool s = None"

text \<open>The issues one call of the visitor of \<^verbatim>\<open>validateHandlers\<close> pushes.\<close>

definition handlerIssues :: "HandlerRegistry \<Rightarrow> step \<Rightarrow> string \<Rightarrow> SchemaIssue list" where
  "handlerIssues registry step p =
     (case stepAction step of
        Some a \<Rightarrow> if \<not> handlerExists registry (''handlers.'' @ a)
                  then [missingIssue ''handler'' a (p @ ''.action'')] else []
      | None \<Rightarrow> [])
     @ (case stepAgent step of
          Some a \<Rightarrow> if \<not> handlerExists registry (''agent.'' @ a)
                    then [missingIssue ''agent'' a (p @ ''.agent'')] else []
        | None \<Rightarrow> [])
     @ (case stepTool step of
          Some t \<Rightarrow> if \<not> handlerExists registry (''tool.'' @ t)
                    then [missingIssue ''tool'' t (p @ ''.tool'')] else []
        | None \<Rightarrow> [])
     @ (case step of
          BranchStep branches \<Rightarrow>
            concat (map (\<lambda>(branchIndex, b).
                      if \<not> handlerExists registry (cond_handler (branch_when b))
                      then [missingIssue ''handler'' (cond_handler (branch_when b))
                              (p @ ''.branches.'' @ show_nat branchIndex @ ''.when.handler'')]
                      else [])
                    (enumerate 0 branches))
        | _ \<Rightarrow> [])
     @ (case step of
          DoWhileStep body cond \<Rightarrow>
            if \<not> handlerExists registry (cond_handler cond)
            then [missingIssue ''handler'' (cond_handler cond) (p @ ''.condition.handler'')] else []
        | DoUntilStep body cond \<Rightarrow>
            if \<not> handlerExists registry (cond_handler cond)
            then [missingIssue ''handler'' (cond_handler cond) (p @ ''.condition.handler'')] else []
        | _ \<Rightarrow> [])
     @ (case step of
          WorkflowStep workflowId inputMapping \<Rightarrow>
            if \<not> bucketHas registry ''workflows'' workflowId
            then [missingIssue ''workflow'' workflowId (p @ ''.workflowId'')] else []
        | _ \<Rightarrow> [])"

definition handlersVisitor :: "HandlerRegistry \<Rightarrow> step \<Rightarrow> string \<Rightarrow> SchemaIssue list \<Rightarrow> SchemaIssue list" where
  "handlersVisitor registry step p issues = issues @ handlerIssues registry step p"

definition validateHandlers :: "step list \<Rightarrow> string \<Rightarrow> HandlerRegistry \<Rightarrow> SchemaIssue list" where
  "validateHandlers steps basePath registry = visitSteps (handlersVisitor registry) basePath 0 steps []"


section \<open>Handler resolver\<close>

text \<open>
  What \<^verbatim>\<open>resolveHandler\<close> returns: the registry entry itself, or a closure around an agent
  or a tool.
\<close>

datatype handler =
    RegistryEntry string string
  | AgentWrapper string
  | ToolWrapper string

definition lookupOrMissing :: "HandlerRegistry \<Rightarrow> string \<Rightarrow> string \<Rightarrow> string \<Rightarrow> error + handler" where
  "lookupOrMissing registry bucket name msg =
     (if bucketHas registry bucket name then Inr (RegistryEntry bucket name) else Inl (Error msg))"

definition resolveHandler :: "HandlerRegistry \<Rightarrow> string \<Rightarrow> error + handler" where
  "resolveHandler registry handlerId =
     (let namespace = fst (splitHandlerId handlerId); name = snd (splitHandlerId handlerId)
      in if namespace = ''handlers''
         then (case registry ''handlers'' of
                 None \<Rightarrow> Inl (Error (''Cannot read properties of undefined (reading '' @ [CHR 0x27]
                                      @ name @ [CHR 0x27] @ '')''))
               | Some names \<Rightarrow>
                   if name \<in> names then Inr (RegistryEntry ''handlers'' name)
                   else Inl (Error (''Missing handler: '' @ handlerId)))
         else if namespace = ''agent''
         then (if bucketHas registry ''agents'' name then Inr (AgentWrapper name)
               else Inl (Error (''Missing agent: '' @ handlerId)))
         else if namespace = ''tool''
         then (if bucketHas registry ''tools'' name then Inr (ToolWrapper name)
               else Inl (Error (''Missing tool: '' @ handlerId)))
         else if namespace = ''mcp''
         then (let parts = split_dot handlerId
               in if length parts \<ge> 3
                  then lookupOrMissing registry ''mcp''
                         (parts ! 1 @ ''.'' @ join ''.'' (drop 2 parts))
                         (''Missing MCP handler: '' @ handlerId)
                  else Inl (Error (''Invalid MCP handler ID format: '' @ handlerId)))
         else if namespace = ''network''
         then lookupOrMissing registry ''networks'' name (''Missing network handler: '' @ handlerId)
         else if namespace = ''tts'' \<or> namespace = ''listen''
         then lookupOrMissing registry ''voice'' name (''Missing voice handler: '' @ handlerId)
         else if namespace = ''documentChunk'' \<or> namespace = ''documentMetadata''
                 \<or> namespace = ''documentTransform''
         then lookupOrMissing registry ''document'' name (''Missing document handler: '' @ handlerId)
         else if namespace = ''graphRag'' \<or> namespace = ''graphRagQuery''
         then lookupOrMissing registry ''graphRag'' name (''Missing GraphRAG handler: '' @ handlerId)
         else if namespace = ''evals''
         then lookupOrMissing registry ''evals'' name (''Missing eval scorer: '' @ handlerId)
         else lookupOrMissing registry namespace name (''Missing handler: '' @ handlerId))"

section \<open>Graph compiler\<close>

text \<open>
  The runtime is external: the compiler's result is the sequence of calls it makes on the
  runtime's workflow builder, and the steps it creates are the data their \<^verbatim>\<open>execute\<close>
  closures capture. An id the compiler takes from the clock (\<^verbatim>\<open>`bail.${Date.now()}`\<close>) is
  recorded by its prefix. A workflow of the registry is named by its registry key.
  Schema conversion (\<^verbatim>\<open>toZod\<close>) belongs to the runtime and is not represented.
\<close>

datatype step_id = GivenId string | ClockId string

datatype map_source =
    MapValue jsval
  | MapRequestContextPath jsval
  | MapInitData jsval
  | MapStepPath jsval jsval

datatype cond_unit = ConditionUnit handler jsval

datatype rt_step =
    CreatedStep string jsval jsval handler jsval
  | HumanInputUnit step_id string
  | BailUnit step_id "string option" jsval
  | SuspendUnit step_id string
  | ResumeUnit step_id jsval
  | RegistryWorkflow string
  | ClonedWorkflow string string
  | MappedWorkflow string string jsval "(string \<times> map_source) list"
  | CommittedWorkflow workflow
and rt_call =
    ThenCall rt_step
  | MapCall "(string \<times> map_source) list" "string option"
  | SleepCall int
  | SleepUntilCall string
  | ParallelCall "rt_step list"
  | BranchCall "(cond_unit \<times> rt_step) list"
  | ForeachCall rt_step int
  | DoWhileCall rt_step cond_unit
  | DoUntilCall rt_step cond_unit
and workflow = Workflow (workflow_id: string) (workflow_inputSchema: jsval)
                 (workflow_outputSchema: jsval) (workflow_calls: "rt_call list")

definition createWorkflow :: "string \<Rightarrow> jsval \<Rightarrow> jsval \<Rightarrow> workflow" where
  "createWorkflow wid inputSchema outputSchema = Workflow wid inputSchema outputSchema []"

text \<open>A builder method appends its call.\<close>

definition call :: "workflow \<Rightarrow> rt_call \<Rightarrow> workflow" where
  "call current c =
     Workflow (workflow_id current) (workflow_inputSchema current) (workflow_outputSchema current)
       (workflow_calls current @ [c])"

definition commit :: "workflow \<Rightarrow> rt_step" where
  "commit built = CommittedWorkflow built"

definition buildMappingEntry :: "jsval \<Rightarrow> map_source" where
  "buildMappingEntry mapping =
     (if js_in ''value'' mapping then MapValue (get_prop mapping ''value'')
      else if get_prop mapping ''from'' = JStr ''requestContext''
      then MapRequestContextPath (get_prop mapping ''path'')
      else if get_prop mapping ''from'' = JStr ''init''
      then MapInitData (get_prop mapping ''path'')
      else MapStepPath (get_prop mapping ''stepId'') (get_prop mapping ''path''))"

definition buildMapping :: "jsval \<Rightarrow> (string \<times> map_source) list" where
  "buildMapping mappings = map (\<lambda>kv. (fst kv, buildMappingEntry (snd kv))) (entries mappings)"

definition controlStepError :: "string \<Rightarrow> error" where
  "controlStepError t = Error (''buildStep cannot handle control step type: '' @ t)"

text \<open>The handler id \<^verbatim>\<open>buildStep\<close> derives from a step extending \<^verbatim>\<open>StepBase\<close>.\<close>

fun leafHandlerId :: "leaf_kind \<Rightarrow> string \<Rightarrow> error + string" where
  "leafHandlerId (KAgent a) i = Inr (''agent.'' @ a)"
| "leafHandlerId (KStep a) i =
     (if a = [] then Inl (Error ''Missing handler/agent/action/tool for step'')
      else Inr (''handlers.'' @ a))"
| "leafHandlerId (KTool t) i = Inr (''tool.'' @ t)"
| "leafHandlerId (KMemory h) i = Inr (''memory.'' @ h)"
| "leafHandlerId (KVectorStore h) i = Inr (''vectorStore.'' @ h)"
| "leafHandlerId (KRag h) i = Inr (''rag.'' @ h)"
| "leafHandlerId (KHttp h) i = Inr (''http.'' @ h)"
| "leafHandlerId (KLogger h) i = Inr (''logger.'' @ h)"
| "leafHandlerId (KRequestContext h) i = Inr (''requestContext.'' @ h)"
| "leafHandlerId (KMcp srv t) i = Inr (''mcp.'' @ srv @ ''.'' @ t)"
| "leafHandlerId (KNetwork n) i = Inr (''network.'' @ n)"
| "leafHandlerId (KEvals sc) i = Inr (''evals.'' @ sc)"
| "leafHandlerId k i = Inr (kind_type k @ ''.'' @ i)"

fun buildStep :: "step \<Rightarrow> HandlerRegistry \<Rightarrow> error + rt_step" where
  "buildStep (SleepStep ms sid) registry = Inl (controlStepError ''sleep'')"
| "buildStep (SleepUntilStep d sid) registry = Inl (controlStepError ''sleepUntil'')"
| "buildStep (MapStep m sid) registry = Inl (controlStepError ''map'')"
| "buildStep (HumanInputStep pr sid) registry = Inl (controlStepError ''humanInput'')"
| "buildStep (BailStep w pl sid) registry = Inl (controlStepError ''bail'')"
| "buildStep (WorkflowStep workflowId im) registry =
     (if bucketHas registry ''workflows'' workflowId then Inr (RegistryWorkflow workflowId)
      else Inl (Error (''Missing nested workflow: '' @ workflowId)))"
| "buildStep (Leaf k i inp out ps) registry =
     (case leafHandlerId k i of
        Inl e \<Rightarrow> Inl e
      | Inr handlerId \<Rightarrow>
          (case resolveHandler registry handlerId of
             Inl e \<Rightarrow> Inl e
           | Inr h \<Rightarrow> Inr (CreatedStep i inp out h (if ps = JUndefined \<or> ps = JNull then JObj [] else ps))))"
| "buildStep (SuspendStep pr sid) registry = Inl (controlStepError ''suspend'')"
| "buildStep (ResumeStep d sid) registry = Inl (controlStepError ''resume'')"
| "buildStep s registry = Inl (Error (''Unknown step type: '' @ step_type s))"

text \<open>\<^verbatim>\<open>step.id || `prefix.${Date.now()}`\<close>\<close>

definition idOrClock :: "string option \<Rightarrow> string \<Rightarrow> step_id" where
  "idOrClock sid prefix =
     (case sid of Some i \<Rightarrow> if i \<noteq> [] then GivenId i else ClockId prefix | None \<Rightarrow> ClockId prefix)"

fun isSchemaStep :: "step \<Rightarrow> bool" where
  "isSchemaStep (Leaf k i inp out ps) = True"
| "isSchemaStep s = False"

text \<open>\<^verbatim>\<open>v ?? d\<close>\<close>

definition orElse :: "jsval \<Rightarrow> jsval \<Rightarrow> jsval" where
  "orElse v d = (if v = JUndefined \<or> v = JNull then d else v)"

definition deriveWorkflowSchemas :: "step list \<Rightarrow> jsval \<times> jsval" where
  "deriveWorkflowSchemas steps =
     ((case find isSchemaStep steps of
         Some s \<Rightarrow> orElse (inputSchemaFromStep s) (JObj []) | None \<Rightarrow> JObj []),
      (case find isSchemaStep (rev steps) of
         Some s \<Rightarrow> orElse (schemaFromStep s) (JObj []) | None \<Rightarrow> JObj []))"

text \<open>
  \<open>applyLoop\<close> is the \<^verbatim>\<open>for\<close> loop of \<^verbatim>\<open>applySteps\<close> on its variable \<^verbatim>\<open>current\<close>; the
  parameter \<^verbatim>\<open>workflow\<close> stays available for its id and input schema. \<open>buildBranches\<close> is
  the \<^verbatim>\<open>step.branches.map\<close> of the branch case, with \<^verbatim>\<open>buildBranchWorkflow\<close> inlined.
  A throw is the first \<open>Inl\<close> in evaluation order. The loop's list of step types it
  hands to \<^verbatim>\<open>buildStep\<close> does not name \<^verbatim>\<open>mcp\<close>, so an mcp step of the sequence reaches the
  final \<^verbatim>\<open>throw\<close>.
\<close>

function (sequential)
  applyLoop :: "workflow \<Rightarrow> HandlerRegistry \<Rightarrow> workflow \<Rightarrow> step list \<Rightarrow> error + workflow"
  and buildBranches :: "string \<Rightarrow> HandlerRegistry \<Rightarrow> nat \<Rightarrow> branch list \<Rightarrow> error + (cond_unit \<times> rt_step) list"
where
  "applyLoop workflow registry current [] = Inr current"
| "applyLoop workflow registry current (Leaf (KMcp srv t) i inp out ps # rest) =
     Inl (Error (''Unsupported step type: '' @ ''mcp''))"
| "applyLoop workflow registry current (Leaf k i inp out ps # rest) =
     (case buildStep (Leaf k i inp out ps) registry of
        Inl e \<Rightarrow> Inl e
      | Inr built \<Rightarrow> applyLoop workflow registry (call current (ThenCall built)) rest)"
| "applyLoop workflow registry current (WorkflowStep workflowId inputMapping # rest) =
     (if \<not> bucketHas registry ''workflows'' workflowId
      then Inl (Error (''Missing nested workflow: '' @ workflowId))
      else applyLoop workflow registry
             (call current (ThenCall
                (if truthy inputMapping
                 then MappedWorkflow (workflow_id workflow) workflowId (workflow_inputSchema workflow)
                        (buildMapping inputMapping)
                 else ClonedWorkflow (workflow_id workflow) workflowId)))
             rest)"
| "applyLoop workflow registry current (MapStep mappings sid # rest) =
     applyLoop workflow registry (call current (MapCall (buildMapping mappings) sid)) rest"
| "applyLoop workflow registry current (SleepStep ms sid # rest) =
     applyLoop workflow registry (call current (SleepCall ms)) rest"
| "applyLoop workflow registry current (SleepUntilStep d sid # rest) =
     applyLoop workflow registry (call current (SleepUntilCall d)) rest"
| "applyLoop workflow registry current (HumanInputStep pr sid # rest) =
     applyLoop workflow registry
       (call current (ThenCall (HumanInputUnit (idOrClock sid ''humanInput'') pr))) rest"
| "applyLoop workflow registry current (BailStep w pl sid # rest) =
     applyLoop workflow registry
       (call current (ThenCall (BailUnit (idOrClock sid ''bail'') w pl))) rest"
| "applyLoop workflow registry current (SuspendStep pr sid # rest) =
     applyLoop workflow registry
       (call current (ThenCall (SuspendUnit (idOrClock sid ''suspend'') pr))) rest"
| "applyLoop workflow registry current (ResumeStep d sid # rest) =
     applyLoop workflow registry
       (call current (ThenCall (ResumeUnit (idOrClock sid ''resume'') d))) rest"
| "applyLoop workflow registry current (ParallelStep psteps # rest) =
     (case sequence_sum (map (\<lambda>s. buildStep s registry) psteps) of
        Inl e \<Rightarrow> Inl e
      | Inr builtSteps \<Rightarrow> applyLoop workflow registry (call current (ParallelCall builtSteps)) rest)"
| "applyLoop workflow registry current (BranchStep branches # rest) =
     (case buildBranches (workflow_id workflow) registry 0 branches of
        Inl e \<Rightarrow> Inl e
      | Inr pairs \<Rightarrow> applyLoop workflow registry (call current (BranchCall pairs)) rest)"
| "applyLoop workflow registry current (ForeachStep concurrency body # rest) =
     (case buildStep body registry of
        Inl e \<Rightarrow> Inl e
      | Inr built \<Rightarrow>
          applyLoop workflow registry
            (call current (ForeachCall built (case concurrency of None \<Rightarrow> 1 | Some n \<Rightarrow> n))) rest)"
| "applyLoop workflow registry current (DoWhileStep body cond # rest) =
     (case buildStep body registry of
        Inl e \<Rightarrow> Inl e
      | Inr built \<Rightarrow>
          (case resolveHandler registry (cond_handler cond) of
             Inl e \<Rightarrow> Inl e
           | Inr condHandler \<Rightarrow>
               applyLoop workflow registry
                 (call current (DoWhileCall built (ConditionUnit condHandler (cond_params cond)))) rest))"
| "applyLoop workflow registry current (DoUntilStep body cond # rest) =
     (case buildStep body registry of
        Inl e \<Rightarrow> Inl e
      | Inr built \<Rightarrow>
          (case resolveHandler registry (cond_handler cond) of
             Inl e \<Rightarrow> Inl e
           | Inr condHandler \<Rightarrow>
               applyLoop workflow registry
                 (call current (DoUntilCall built (ConditionUnit condHandler (cond_params cond)))) rest))"
| "buildBranches parentId registry index [] = Inr []"
| "buildBranches parentId registry index (b # bs) =
     (case resolveHandler registry (cond_handler (branch_when b)) of
        Inl e \<Rightarrow> Inl e
      | Inr condHandler \<Rightarrow>
          (let branchWorkflow =
                 createWorkflow (parentId @ ''.branch.'' @ show_nat index)
                   (fst (deriveWorkflowSchemas (branch_steps b)))
                   (snd (deriveWorkflowSchemas (branch_steps b)))
           in (case applyLoop branchWorkflow registry branchWorkflow (branch_steps b) of
                 Inl e \<Rightarrow> Inl e
               | Inr built \<Rightarrow>
                   (case buildBranches parentId registry (Suc index) bs of
                      Inl e \<Rightarrow> Inl e
                    | Inr pairs \<Rightarrow>
                        Inr ((ConditionUnit condHandler (cond_params (branch_when b)), commit built)
                             # pairs)))))"
  by pat_completeness auto
termination
  by (relation "measure (\<lambda>x. case x of
          Inl (workflow, registry, current, steps) \<Rightarrow> size_list size steps
        | Inr (parentId, registry, index, branches) \<Rightarrow> size_list size branches)")
     (auto split: branch.splits, (case_tac b, simp)+)

definition applySteps :: "workflow \<Rightarrow> step list \<Rightarrow> HandlerRegistry \<Rightarrow> error + workflow" where
  "applySteps workflow steps registry = applyLoop workflow registry workflow steps"




subsection \<open>The bail step at run time\<close>






section \<open>Notions used in the statements\<close>

definition wObj :: jsval where
  "wObj = JObj [(''type'', JStr ''object'')]"


text \<open>A schema declares its type(s): a non-empty type name, or a list of type names.\<close>

definition declaresType :: "jsval \<Rightarrow> bool" where
  "declaresType schema = truthy (getSchemaType schema)"

text \<open>The issues of the type rule: their message starts with "Schema type mismatch.".\<close>

definition isTypeMismatch :: "SchemaIssue \<Rightarrow> bool" where
  "isTypeMismatch issue = (take 21 (message issue) = ''Schema type mismatch.'')"

definition typeMismatchIssue :: "jsval \<Rightarrow> jsval \<Rightarrow> string \<Rightarrow> mode \<Rightarrow> SchemaIssue" where
  "typeMismatchIssue outputSchema inputSchema p mode =
     \<lparr>message = typeMismatchMessage (getSchemaType outputSchema) (getSchemaType inputSchema),
      path = p,
      severity = (case mode of Strict \<Rightarrow> SevError | Warn \<Rightarrow> SevWarning)\<rparr>"

text \<open>The producer's declared properties: \<^verbatim>\<open>getObjectProps(output) ?? {}\<close>.\<close>

definition declaredProps :: "jsval \<Rightarrow> jsval" where
  "declaredProps schema = (if getObjectProps schema = JUndefined then JObj [] else getObjectProps schema)"

text \<open>
  The carried-forward shape: what one step of the sequence assigns to \<^verbatim>\<open>prevOutput\<close>, and
  its value after a run of steps from the sequence's start.
\<close>

fun carry :: "jsval \<Rightarrow> step \<Rightarrow> jsval" where
  "carry prevOutput (BranchStep branches) = JUndefined"
| "carry prevOutput (ParallelStep psteps) = JUndefined"
| "carry prevOutput (MapStep mappings mid) = opaqueObject"
| "carry prevOutput (WorkflowStep wid inputMapping) = opaqueObject"
| "carry prevOutput (SleepStep ms sid) = prevOutput"
| "carry prevOutput (SleepUntilStep d sid) = prevOutput"
| "carry prevOutput (ForeachStep c body) = computeForeachOutput (ForeachStep c body)"
| "carry prevOutput s = schemaFromStep s"

definition carriedShape :: "jsval \<Rightarrow> step list \<Rightarrow> jsval" where
  "carriedShape inputSchema steps = foldl carry inputSchema steps"

text \<open>Sample schemas.\<close>

definition wString :: jsval where "wString = JObj [(''type'', JStr ''string'')]"

definition wStrings :: jsval where
  "wStrings = JObj [(''type'', JStr ''array''), (''items'', JObj [(''type'', JStr ''string'')])]"

definition wNumbers :: jsval where
  "wNumbers = JObj [(''type'', JStr ''array''), (''items'', JObj [(''type'', JStr ''number'')])]"

definition wProducer :: jsval where
  "wProducer = JObj [(''type'', JStr ''object''),
     (''properties'', JObj [(''result'', JObj [(''type'', JStr ''number'')])])]"


definition wInheritedConsumer :: jsval where
  "wInheritedConsumer =
     JObj [(''type'', JStr ''object''), (''required'', JArr [JStr ''constructor'', JStr ''value''])]"










text \<open>
  Sample registries and specifications. The registries have the one bucket \<^verbatim>\<open>handlers\<close>,
  an ordinary object: empty, and with the one entry \<^verbatim>\<open>ok\<close>. In the buckets read below
  (\<^verbatim>\<open>handlers\<close>, \<^verbatim>\<open>agents\<close>, \<^verbatim>\<open>tools\<close>, \<^verbatim>\<open>workflows\<close>, \<^verbatim>\<open>memory\<close>) their lookups are those
  of the registry objects \<^verbatim>\<open>{ handlers: {} }\<close> and \<^verbatim>\<open>{ handlers: { ok } }\<close>.
\<close>

definition absentRegistry :: HandlerRegistry where
  "absentRegistry = Map.empty(''handlers'' \<mapsto> plainBucket {})"











text \<open>
  The root and the dotted path of an expression: the first dot-separated part, and the
  remaining parts joined by dots again.
\<close>

definition exprRoot :: "string \<Rightarrow> string" where
  "exprRoot s = hd (split_dot s)"

definition exprPath :: "string \<Rightarrow> string" where
  "exprPath s = join ''.'' (tl (split_dot s))"

definition wItemsContext :: TemplateContext where
  "wItemsContext =
     \<lparr>inputData = JObj [(''items'', JArr [JStr ''a'', JStr ''b''])], ctxSteps = JObj [],
      initData = JObj [], requestContext = JObj []\<rparr>"

definition wScenarioContext :: TemplateContext where
  "wScenarioContext =
     \<lparr>inputData = JObj [(''count'', JNum ''2'')],
      ctxSteps = JObj [(''a'', JObj [(''value'', JStr ''x'')])],
      initData = JObj [], requestContext = JObj []\<rparr>"

section \<open>Auxiliary facts\<close>


lemma typeList_isString: "isString t \<Longrightarrow> typeList t = [t]"
  by (cases t) auto

lemma typeList_strings:
  "truthy (getSchemaType schema) \<Longrightarrow> t \<in> set (typeList (getSchemaType schema)) \<Longrightarrow> isString t"
  by (auto simp: getSchemaType_def Let_def list_all_iff typeList_isString split: if_splits jsval.splits)

lemma isString_primitive: "isString t \<Longrightarrow> primitive t"
  by (cases t) auto

lemma typeIncludes_iff:
  assumes "truthy (getSchemaType outputSchema)" "truthy (getSchemaType inputSchema)"
  shows "typeIncludes (getSchemaType outputSchema) (getSchemaType inputSchema)
     \<longleftrightarrow> (\<forall>t \<in> set (typeList (getSchemaType inputSchema)). t \<in> set (typeList (getSchemaType outputSchema)))"
  using assms typeList_strings [OF assms(2)]
  by (auto simp: typeIncludes_def list_all_iff array_includes_def dest: isString_primitive)

lemma issue_here_or_items:
  assumes "issue \<in> set (validateSchemaCompatibility outputSchema inputSchema p mode)"
  shows "path issue = p
       \<or> (truthy outputSchema \<and> truthy inputSchema
          \<and> typeIncludes (getSchemaType outputSchema) (getSchemaType inputSchema)
          \<and> getSchemaType inputSchema = JStr ''array'' \<and> getSchemaType outputSchema = JStr ''array''
          \<and> truthy (getArrayItems outputSchema) \<and> truthy (getArrayItems inputSchema)
          \<and> issue \<in> set (validateSchemaCompatibility (getArrayItems outputSchema)
                           (getArrayItems inputSchema) (p @ ''.items'') mode))"
  using assms
  by (subst (asm) validateSchemaCompatibility.simps)
     (auto simp: Let_def missingKeyIssue_def split: if_splits)

lemma issue_path_extends:
  "issue \<in> set (validateSchemaCompatibility outputSchema inputSchema p mode) \<Longrightarrow>
     \<exists>suffix. path issue = p @ suffix"
proof (induction outputSchema inputSchema p mode rule: validateSchemaCompatibility.induct)
  case (1 outputSchema inputSchema p mode)
  from issue_here_or_items [OF "1.prems"] show ?case
  proof
    assume "path issue = p"
    then show ?thesis by simp
  next
    assume r: "truthy outputSchema \<and> truthy inputSchema
          \<and> typeIncludes (getSchemaType outputSchema) (getSchemaType inputSchema)
          \<and> getSchemaType inputSchema = JStr ''array'' \<and> getSchemaType outputSchema = JStr ''array''
          \<and> truthy (getArrayItems outputSchema) \<and> truthy (getArrayItems inputSchema)
          \<and> issue \<in> set (validateSchemaCompatibility (getArrayItems outputSchema)
                           (getArrayItems inputSchema) (p @ ''.items'') mode)"
    then have "\<exists>suffix. path issue = (p @ ''.items'') @ suffix"
      by (intro "1.IH") auto
    then obtain suffix where "path issue = p @ (''.items'' @ suffix)"
      by auto
    then show ?thesis by blast
  qed
qed

lemma seqLoop_Cons:
  "seqLoop avail p mode index prevOutput (s # rest)
     = seqLoop avail p mode index prevOutput [s] @ seqLoop avail p mode (Suc index) (carry prevOutput s) rest"
  by (cases s) simp_all

lemma seqLoop_append:
  "seqLoop avail p mode index prevOutput (xs @ ys)
     = seqLoop avail p mode index prevOutput xs
       @ seqLoop avail p mode (index + length xs) (foldl carry prevOutput xs) ys"
proof (induction xs arbitrary: index prevOutput)
  case Nil
  then show ?case by simp
next
  case (Cons s xs)
  have "seqLoop avail p mode index prevOutput ((s # xs) @ ys)
      = seqLoop avail p mode index prevOutput [s]
        @ seqLoop avail p mode (Suc index) (carry prevOutput s) (xs @ ys)"
    using seqLoop_Cons [of avail p mode index prevOutput s "xs @ ys"] by simp
  also have "\<dots> = seqLoop avail p mode index prevOutput [s]
        @ seqLoop avail p mode (Suc index) (carry prevOutput s) xs
        @ seqLoop avail p mode (Suc index + length xs) (foldl carry (carry prevOutput s) xs) ys"
    by (simp add: Cons.IH)
  also have "\<dots> = seqLoop avail p mode index prevOutput (s # xs)
        @ seqLoop avail p mode (index + length (s # xs)) (foldl carry prevOutput (s # xs)) ys"
    using seqLoop_Cons [of avail p mode index prevOutput s xs] by simp
  finally show ?case .
qed
















lemma split_dot_key:
  "CHR ''.'' \<notin> set k \<Longrightarrow> split_dot (k @ CHR ''.'' # rest) = k # split_dot rest"
  "CHR ''.'' \<notin> set k \<Longrightarrow> split_dot k = [k]"
  by (induction k) (auto split: list.splits)

lemma resolveTemplateString_literal:
  "CHR ''$'' \<notin> set pre \<Longrightarrow>
     resolveTemplateString (pre @ s) ctx
       = (case resolveTemplateString s ctx of Inl err \<Rightarrow> Inl err | Inr t \<Rightarrow> Inr (pre @ t))"
  by (induction pre) (auto split: sum.splits)

lemma resolveTemplateString_match:
  assumes "e \<noteq> []" and "CHR ''}'' \<notin> set e"
  shows "resolveTemplateString (''${'' @ e @ ''}'' @ post) ctx
       = (case replaceExpr e ctx of
            Inl err \<Rightarrow> Inl err
          | Inr r \<Rightarrow> (case resolveTemplateString post ctx of
                        Inl err \<Rightarrow> Inl err
                      | Inr t \<Rightarrow> Inr (r @ t)))"
proof -
  have t: "takeWhile notClose (e @ CHR ''}'' # post) = e"
    using assms(2) by (induction e) auto
  have d: "dropWhile notClose (e @ CHR ''}'' # post) = CHR ''}'' # post"
    using assms(2) by (induction e) auto
  show ?thesis
    using assms(1) by (simp add: t d split: sum.splits)
qed

text \<open>
  The decimal numerals: the rendering of an index is injective and consists of digits, so
  that the index strings of an array are exactly the numerals below its length.
\<close>

lemma digit_inj: "m < 10 \<Longrightarrow> n < 10 \<Longrightarrow> ''0123456789'' ! m = ''0123456789'' ! n \<Longrightarrow> m = n"
proof -
  assume a: "m < 10" "n < 10" "''0123456789'' ! m = ''0123456789'' ! n"
  have d: "distinct ''0123456789''" by simp
  have l: "length ''0123456789'' = 10" by simp
  from a d l show "m = n"
    using nth_eq_iff_index_eq [of "''0123456789''" m n] by simp
qed

lemma show_nat_nonempty: "show_nat n \<noteq> []"
  by (subst show_nat.simps) simp

lemma digit_member: "n < 10 \<Longrightarrow> ''0123456789'' ! n \<in> set ''0123456789''"
  using nth_mem [of n "''0123456789''"] by simp

lemma show_nat_digits: "set (show_nat n) \<subseteq> set ''0123456789''"
proof (induction n rule: show_nat.induct)
  case (1 n)
  show ?case
  proof (cases "n < 10")
    case True
    then show ?thesis
      using digit_member [of n] by (subst show_nat.simps) simp
  next
    case False
    have "n mod 10 < 10" by simp
    then have "''0123456789'' ! (n mod 10) \<in> set ''0123456789''"
      by (rule digit_member)
    with False 1 show ?thesis
      by (subst show_nat.simps) simp
  qed
qed

lemma show_nat_inj: "show_nat m = show_nat n \<Longrightarrow> m = n"
proof (induction m arbitrary: n rule: show_nat.induct)
  case (1 m)
  show ?case
  proof (cases "m < 10")
    case m: True
    show ?thesis
    proof (cases "n < 10")
      case True
      with m "1.prems" show ?thesis
        using digit_inj [of m n] show_nat.simps [of m] show_nat.simps [of n] by simp
    next
      case False
      with m "1.prems" show ?thesis
        using show_nat.simps [of m] show_nat.simps [of n] show_nat_nonempty [of "n div 10"] by simp
    qed
  next
    case m: False
    show ?thesis
    proof (cases "n < 10")
      case True
      with m "1.prems" show ?thesis
        using show_nat.simps [of m] show_nat.simps [of n] show_nat_nonempty [of "m div 10"] by simp
    next
      case False
      with m "1.prems" have e: "show_nat (m div 10) = show_nat (n div 10)"
          "''0123456789'' ! (m mod 10) = ''0123456789'' ! (n mod 10)"
        using show_nat.simps [of m] show_nat.simps [of n] by simp_all
      from e(1) m have "m div 10 = n div 10"
        by (rule "1.IH" [rotated])
      moreover from e(2) have "m mod 10 = n mod 10"
        using digit_inj [of "m mod 10" "n mod 10"] by simp
      ultimately show ?thesis
        by (metis div_mult_mod_eq)
    qed
  qed
qed

lemma show_nat_not_length: "show_nat i \<noteq> ''length''"
proof
  assume "show_nat i = ''length''"
  then have "CHR ''l'' \<in> set (show_nat i)" by simp
  with show_nat_digits [of i] show False by auto
qed

lemma array_index_show_nat: "i < n \<Longrightarrow> array_index (show_nat i) n = Some i"
  by (auto simp: array_index_def find_Some_iff dest: show_nat_inj intro!: exI [of _ i])

lemma array_index_None: "array_index k n = None \<longleftrightarrow> k \<notin> show_nat ` {..<n}"
  by (auto simp: array_index_def find_None_iff)
section \<open>Properties of the expression resolver\<close>

text \<open>
  A read finds inherited members: on an empty input, the path \<^verbatim>\<open>input.constructor\<close> leads
  to the function \<^verbatim>\<open>Object\<close>, while \<^verbatim>\<open>input.count\<close> leads to no value.
\<close>

lemma inherited_member_read:
  "resolveTemplateString ''${input.constructor}''
       \<lparr>inputData = JObj [], ctxSteps = JObj [], initData = JUndefined, requestContext = JObj []\<rparr>
     = Inr ''function Object() { [native code] }''
   \<and> resolveTemplateString ''${input.count}''
       \<lparr>inputData = JObj [], ctxSteps = JObj [], initData = JUndefined, requestContext = JObj []\<rparr>
     = Inl (Error ''Template resolution failed for input.count'')"
  by code_simp

text \<open>
  C4, as the claim states it, fails: a traversal that reaches a sequence, which is not a
  mapping, goes on through it by element index or by \<^verbatim>\<open>length\<close> and returns a value.
\<close>

theorem sequence_traversal_counterexample:
  "resolveTemplates (JObj [(''$path'', JStr ''input.items.0'')]) wItemsContext = Inr (JStr ''a'')
   \<and> resolveTemplates (JStr ''n=${input.items.length}'') wItemsContext = Inr (JStr ''n=2'')"
  by code_simp

text \<open>
  C4, amended. For every template value and four-rooted context: a mapping with exactly
  one key, \<^verbatim>\<open>$path\<close> or \<^verbatim>\<open>$jsonPath\<close>, holding a string resolves as that path
  expression; a path expression whose root is one of input/steps/init/requestContext and
  whose dotted path leads to a value returns that value unchanged; an inline
  interpolation inside a string substitutes the stringified value, \<^verbatim>\<open>String\<close> of it (which
  raises a type error for a mapping that has an entry named \<^verbatim>\<open>toString\<close>, and for a
  sequence that holds one); an unrecognised root, and a path that leads to no value,
  always raise a resolution failure (naming the root, or the root and path), never a
  default. The traversal goes through a mapping by key and through a sequence by element
  index or \<^verbatim>\<open>length\<close>; it leads to no value as soon as it reaches null or a scalar
  (boolean, number, string) with parts of the path left, or a key or index that is absent
  and is not the name of a member that every mapping, or every sequence, inherits from
  the runtime (\<^verbatim>\<open>constructor\<close>, \<^verbatim>\<open>toString\<close>, ...). Of a path through such a name nothing
  is stated.
\<close>

theorem path_resolution:
  "(k = ''$path'' \<or> k = ''$jsonPath'' \<longrightarrow>
      resolveTemplates (JObj [(k, JStr e)]) ctx = resolvePathExpression e ctx)
   \<and> (rootSource (exprRoot (normalizePathExpression e)) ctx = None \<longrightarrow>
        resolvePathExpression e ctx = Inl (unknownRoot (exprRoot (normalizePathExpression e))))
   \<and> (\<forall>source. rootSource (exprRoot (normalizePathExpression e)) ctx = Some source \<longrightarrow>
        resolvePathExpression e ctx
          = (if getPathValue source (exprPath (normalizePathExpression e)) = JUndefined
             then Inl (resolutionFailed (exprRoot (normalizePathExpression e))
                         (exprPath (normalizePathExpression e)))
             else Inr (getPathValue source (exprPath (normalizePathExpression e)))))
   \<and> (rootSource (exprRoot (trim e)) ctx = None \<longrightarrow>
        replaceExpr e ctx = Inl (unknownRoot (exprRoot (trim e))))
   \<and> (\<forall>source. rootSource (exprRoot (trim e)) ctx = Some source \<longrightarrow>
        replaceExpr e ctx
          = (if getPathValue source (exprPath (trim e)) = JUndefined
             then Inl (resolutionFailed (exprRoot (trim e)) (exprPath (trim e)))
             else js_String (getPathValue source (exprPath (trim e)))))
   \<and> (CHR ''$'' \<notin> set pre \<and> e \<noteq> [] \<and> CHR ''}'' \<notin> set e \<longrightarrow>
        resolveTemplateString (pre @ ''${'' @ e @ ''}'' @ post) ctx
          = (case replaceExpr e ctx of
               Inl err \<Rightarrow> Inl err
             | Inr r \<Rightarrow> (case resolveTemplateString post ctx of
                           Inl err \<Rightarrow> Inl err
                         | Inr t \<Rightarrow> Inr (pre @ r @ t))))
   \<and> (dotted \<noteq> [] \<longrightarrow> getPathValue v dotted = walkPath v (split_dot dotted))
   \<and> (CHR ''.'' \<notin> set key \<longrightarrow>
        split_dot key = [key] \<and> split_dot (key @ ''.'' @ rest) = key # split_dot rest)
   \<and> (\<forall>x. map_of kvs key = Some x \<and> x \<noteq> JUndefined \<longrightarrow>
        walkPath (JObj kvs) (key # parts) = walkPath x parts)
   \<and> (map_of kvs key = Some JUndefined
        \<or> (map_of kvs key = None \<and> key \<notin> set objectPrototypeNames) \<longrightarrow>
        walkPath (JObj kvs) (key # parts) = JUndefined)
   \<and> (\<not> truthy v \<or> \<not> typeof_object v \<longrightarrow> walkPath v (key # parts) = JUndefined)
   \<and> walkPath (JArr xs) (key # parts)
       = (if get_prop (JArr xs) key = JUndefined then JUndefined
          else walkPath (get_prop (JArr xs) key) parts)
   \<and> get_prop (JArr xs) ''length'' = JNum (show_nat (length xs))
   \<and> (i < length xs \<longrightarrow> get_prop (JArr xs) (show_nat i) = xs ! i)
   \<and> (key \<noteq> ''length'' \<and> key \<notin> show_nat ` {..<length xs}
        \<and> key \<notin> set arrayPrototypeNames \<and> key \<notin> set objectPrototypeNames \<longrightarrow>
        get_prop (JArr xs) key = JUndefined)
   \<and> js_String (JStr s) = Inr s
   \<and> js_String (JNum n) = Inr n
   \<and> (''toString'' \<in> fst ` set kvs \<longrightarrow>
        js_String (JObj kvs) = Inl (Error ''Cannot convert object to primitive value''))"
proof (intro conjI)
  show "k = ''$path'' \<or> k = ''$jsonPath'' \<longrightarrow>
      resolveTemplates (JObj [(k, JStr e)]) ctx = resolvePathExpression e ctx"
    by (auto simp: isPathExpression_def)
  show "CHR ''$'' \<notin> set pre \<and> e \<noteq> [] \<and> CHR ''}'' \<notin> set e \<longrightarrow>
        resolveTemplateString (pre @ ''${'' @ e @ ''}'' @ post) ctx
          = (case replaceExpr e ctx of
               Inl err \<Rightarrow> Inl err
             | Inr r \<Rightarrow> (case resolveTemplateString post ctx of
                           Inl err \<Rightarrow> Inl err
                         | Inr t \<Rightarrow> Inr (pre @ r @ t)))"
    using resolveTemplateString_literal [of pre "''${'' @ e @ ''}'' @ post" ctx]
      resolveTemplateString_match [of e post ctx]
    by (auto simp del: resolveTemplateString.simps split: sum.splits)
  show "CHR ''.'' \<notin> set key \<longrightarrow>
        split_dot key = [key] \<and> split_dot (key @ ''.'' @ rest) = key # split_dot rest"
    using split_dot_key(1) [of key rest] split_dot_key(2) [of key] by simp
  show "i < length xs \<longrightarrow> get_prop (JArr xs) (show_nat i) = xs ! i"
    by (simp add: show_nat_not_length array_index_show_nat)
  show "key \<noteq> ''length'' \<and> key \<notin> show_nat ` {..<length xs}
        \<and> key \<notin> set arrayPrototypeNames \<and> key \<notin> set objectPrototypeNames \<longrightarrow>
        get_prop (JArr xs) key = JUndefined"
    using array_index_None [of key "length xs"] by auto
qed (auto simp: resolvePathExpression_def replaceExpr_def exprRoot_def exprPath_def Let_def
       getPathValue_def split: option.splits)

theorem path_resolution_witness:
  "resolveTemplates (JObj [(''$path'', JStr ''input.count'')]) wScenarioContext = Inr (JNum ''2'')
   \<and> resolveTemplates (JObj [(''$jsonPath'', JStr ''$.steps.a.value'')]) wScenarioContext = Inr (JStr ''x'')
   \<and> resolveTemplateString ''v=${steps.a.value}!'' wScenarioContext = Inr ''v=x!''
   \<and> resolveTemplateString ''${steps.a.missing}'' wScenarioContext
       = Inl (Error ''Template resolution failed for steps.a.missing'')
   \<and> resolveTemplates (JObj [(''$path'', JStr ''input.count.digits'')]) wScenarioContext
       = Inl (Error ''Template resolution failed for input.count.digits'')
   \<and> resolveTemplates (JObj [(''$path'', JStr ''other.count'')]) wScenarioContext
       = Inl (Error ''Unknown template root: other'')
   \<and> get_prop (JArr [JStr ''a'', JStr ''b'']) ''1'' = JStr ''b''
   \<and> get_prop (JArr [JStr ''a'', JStr ''b'']) ''first'' = JUndefined
   \<and> walkPath (JObj [(''toString'', JStr ''x'')]) [''first'', ''second''] = JUndefined
   \<and> js_String (JObj [(''toString'', JStr ''x'')])
       = Inl (Error ''Cannot convert object to primitive value'')"
proof -
  have r1: "rootSource (exprRoot (normalizePathExpression ''input.count'')) wScenarioContext
      = Some (JObj [(''count'', JNum ''2'')])"
    by code_simp
  have g1: "getPathValue (JObj [(''count'', JNum ''2'')]) (exprPath (normalizePathExpression ''input.count''))
      = JNum ''2''"
    by code_simp
  have w1: "resolveTemplates (JObj [(''$path'', JStr ''input.count'')]) wScenarioContext = Inr (JNum ''2'')"
    using path_resolution [where k = "''$path''" and e = "''input.count''" and ctx = wScenarioContext]
      r1 g1
    by (simp del: resolveTemplates.simps)
  have r2: "rootSource (exprRoot (normalizePathExpression ''$.steps.a.value'')) wScenarioContext
      = Some (JObj [(''a'', JObj [(''value'', JStr ''x'')])])"
    by code_simp
  have g2: "getPathValue (JObj [(''a'', JObj [(''value'', JStr ''x'')])])
        (exprPath (normalizePathExpression ''$.steps.a.value'')) = JStr ''x''"
    by code_simp
  have w2: "resolveTemplates (JObj [(''$jsonPath'', JStr ''$.steps.a.value'')]) wScenarioContext = Inr (JStr ''x'')"
    using path_resolution [where k = "''$jsonPath''" and e = "''$.steps.a.value''" and ctx = wScenarioContext]
      r2 g2
    by (simp del: resolveTemplates.simps)
  have r3: "rootSource (exprRoot (trim ''steps.a.value'')) wScenarioContext
      = Some (JObj [(''a'', JObj [(''value'', JStr ''x'')])])"
    by code_simp
  have g3: "getPathValue (JObj [(''a'', JObj [(''value'', JStr ''x'')])]) (exprPath (trim ''steps.a.value''))
      = JStr ''x''"
    by code_simp
  have t3: "resolveTemplateString ''!'' wScenarioContext = Inr ''!''"
    by code_simp
  have w3: "resolveTemplateString ''v=${steps.a.value}!'' wScenarioContext = Inr ''v=x!''"
    using path_resolution [where e = "''steps.a.value''" and ctx = wScenarioContext
        and pre = "''v=''" and post = "''!''"]
      r3 g3 t3
    by (simp del: resolveTemplateString.simps)
  have r4: "rootSource (exprRoot (trim ''steps.a.missing'')) wScenarioContext
      = Some (JObj [(''a'', JObj [(''value'', JStr ''x'')])])"
    by code_simp
  have g4: "getPathValue (JObj [(''a'', JObj [(''value'', JStr ''x'')])]) (exprPath (trim ''steps.a.missing''))
      = JUndefined"
    by code_simp
  have m4: "resolutionFailed (exprRoot (trim ''steps.a.missing'')) (exprPath (trim ''steps.a.missing''))
      = Error ''Template resolution failed for steps.a.missing''"
    by code_simp
  have w4: "resolveTemplateString ''${steps.a.missing}'' wScenarioContext
       = Inl (Error ''Template resolution failed for steps.a.missing'')"
    using path_resolution [where e = "''steps.a.missing''" and ctx = wScenarioContext
        and pre = "[]" and post = "[]"]
      r4 g4 m4
    by (simp del: resolveTemplateString.simps)
  have r5: "rootSource (exprRoot (normalizePathExpression ''input.count.digits'')) wScenarioContext
      = Some (JObj [(''count'', JNum ''2'')])"
    by code_simp
  have g5: "getPathValue (JObj [(''count'', JNum ''2'')])
        (exprPath (normalizePathExpression ''input.count.digits'')) = JUndefined"
    by code_simp
  have m5: "resolutionFailed (exprRoot (normalizePathExpression ''input.count.digits''))
        (exprPath (normalizePathExpression ''input.count.digits''))
      = Error ''Template resolution failed for input.count.digits''"
    by code_simp
  have w5: "resolveTemplates (JObj [(''$path'', JStr ''input.count.digits'')]) wScenarioContext
       = Inl (Error ''Template resolution failed for input.count.digits'')"
    using path_resolution [where k = "''$path''" and e = "''input.count.digits''" and ctx = wScenarioContext]
      r5 g5 m5
    by (simp del: resolveTemplates.simps)
  have r6: "rootSource (exprRoot (normalizePathExpression ''other.count'')) wScenarioContext = None"
    by code_simp
  have m6: "unknownRoot (exprRoot (normalizePathExpression ''other.count''))
      = Error ''Unknown template root: other''"
    by code_simp
  have w6: "resolveTemplates (JObj [(''$path'', JStr ''other.count'')]) wScenarioContext
       = Inl (Error ''Unknown template root: other'')"
    using path_resolution [where k = "''$path''" and e = "''other.count''" and ctx = wScenarioContext]
      r6 m6
    by (simp del: resolveTemplates.simps)
  have n: "show_nat 1 = ''1''"
    by (simp add: show_nat.simps)
  have a: "''first'' \<notin> show_nat ` {..<length [JStr ''a'', JStr ''b'']}"
    by (simp add: lessThan_Suc show_nat.simps)
  have b: "''first'' \<notin> set arrayPrototypeNames" "''first'' \<notin> set objectPrototypeNames"
    by (simp_all add: arrayPrototypeNames_def objectPrototypeNames_def)
  note t = path_resolution [where xs = "[JStr ''a'', JStr ''b'']" and i = 1 and key = "''first''"
        and kvs = "[(''toString'', JStr ''x'')]" and parts = "[''second'']"]
  have c1: "get_prop (JArr [JStr ''a'', JStr ''b'']) ''1'' = JStr ''b''"
    using t n
    by (simp del: resolveTemplates.simps resolveTemplateString.simps walkPath.simps get_prop.simps
          js_String.simps)
  have c2: "get_prop (JArr [JStr ''a'', JStr ''b'']) ''first'' = JUndefined"
    using t a b
    by (simp del: resolveTemplates.simps resolveTemplateString.simps walkPath.simps get_prop.simps
          js_String.simps)
  have c3: "walkPath (JObj [(''toString'', JStr ''x'')]) [''first'', ''second''] = JUndefined"
    using t b
    by (simp del: resolveTemplates.simps resolveTemplateString.simps walkPath.simps get_prop.simps
          js_String.simps)
  have c4: "js_String (JObj [(''toString'', JStr ''x'')])
       = Inl (Error ''Cannot convert object to primitive value'')"
    using t
    by (simp del: resolveTemplates.simps resolveTemplateString.simps walkPath.simps get_prop.simps
          js_String.simps)
  show ?thesis
    by (intro conjI) (rule w1 w2 w3 w4 w5 w6 c1 c2 c3 c4)+
qed

section \<open>Properties of the graph compiler\<close>

text \<open>
  C10. When the body of a foreach step builds, the compiler calls the runtime's foreach
  primitive with that body and a concurrency of exactly 1 if the step declares none, and
  with exactly the declared bound \<open>n\<close> otherwise; compilation then continues with the
  remaining steps.
\<close>

theorem foreach_concurrency_forwarded:
  assumes "buildStep body registry = Inr built"
  shows "applyLoop workflow registry current (ForeachStep None body # rest)
           = applyLoop workflow registry (call current (ForeachCall built 1)) rest
         \<and> applyLoop workflow registry current (ForeachStep (Some n) body # rest)
           = applyLoop workflow registry (call current (ForeachCall built n)) rest"
  using assms by simp

theorem foreach_concurrency_forwarded_witness:
  "buildStep (Leaf (KStep ''processItem'') ''item'' wObj wObj JUndefined)
       (Map.empty(''handlers'' \<mapsto> plainBucket {''processItem''}))
     = Inr (CreatedStep ''item'' wObj wObj (RegistryEntry ''handlers'' ''processItem'') (JObj []))
   \<and> applySteps (createWorkflow ''w'' wObj wObj)
        [ForeachStep None (Leaf (KStep ''processItem'') ''item'' wObj wObj JUndefined)]
        (Map.empty(''handlers'' \<mapsto> plainBucket {''processItem''}))
     = Inr (Workflow ''w'' wObj wObj
         [ForeachCall (CreatedStep ''item'' wObj wObj (RegistryEntry ''handlers'' ''processItem'') (JObj [])) 1])
   \<and> applySteps (createWorkflow ''w'' wObj wObj)
        [ForeachStep (Some 2) (Leaf (KStep ''processItem'') ''item'' wObj wObj JUndefined)]
        (Map.empty(''handlers'' \<mapsto> plainBucket {''processItem''}))
     = Inr (Workflow ''w'' wObj wObj
         [ForeachCall (CreatedStep ''item'' wObj wObj (RegistryEntry ''handlers'' ''processItem'') (JObj [])) 2])"
proof -
  have b: "buildStep (Leaf (KStep ''processItem'') ''item'' wObj wObj JUndefined)
       (Map.empty(''handlers'' \<mapsto> plainBucket {''processItem''}))
     = Inr (CreatedStep ''item'' wObj wObj (RegistryEntry ''handlers'' ''processItem'') (JObj []))"
    by (simp add: resolveHandler_def splitHandlerId_def plainBucket_def)
  from foreach_concurrency_forwarded [OF b, of "createWorkflow ''w'' wObj wObj" "createWorkflow ''w'' wObj wObj" "[]" 2]
  show ?thesis
    using b by (simp add: applySteps_def call_def createWorkflow_def)
qed







section \<open>Properties of the schema compatibility validator\<close>

text \<open>
  C6. For a producer output schema and a consumer input schema that both declare their
  type(s): if some consumer type is not among the producer's types, the validator's
  result for the pair is exactly one type-mismatch issue (the remaining rules are not
  evaluated), of severity error under strict and warning under warn; if every consumer
  type is among the producer's types, no issue at the pair's path is a type-mismatch
  issue.
\<close>

theorem type_mismatch_issue:
  assumes "declaresType outputSchema" and "declaresType inputSchema"
  shows "((\<exists>t \<in> set (typeList (getSchemaType inputSchema)). t \<notin> set (typeList (getSchemaType outputSchema))) \<longrightarrow>
            validateSchemaCompatibility outputSchema inputSchema p mode
              = [typeMismatchIssue outputSchema inputSchema p mode])
       \<and> ((\<forall>t \<in> set (typeList (getSchemaType inputSchema)). t \<in> set (typeList (getSchemaType outputSchema))) \<longrightarrow>
            (\<forall>issue \<in> set (validateSchemaCompatibility outputSchema inputSchema p mode).
               path issue = p \<longrightarrow> \<not> isTypeMismatch issue))"
proof (intro conjI impI)
  have tr: "truthy outputSchema" "truthy inputSchema"
    using assms by (auto simp: declaresType_def getSchemaType_def split: if_splits)
  {
    assume "\<exists>t \<in> set (typeList (getSchemaType inputSchema)). t \<notin> set (typeList (getSchemaType outputSchema))"
    then have "\<not> typeIncludes (getSchemaType outputSchema) (getSchemaType inputSchema)"
      using assms typeIncludes_iff by (auto simp: declaresType_def)
    then show "validateSchemaCompatibility outputSchema inputSchema p mode
              = [typeMismatchIssue outputSchema inputSchema p mode]"
      using tr
      by (subst validateSchemaCompatibility.simps)
         (simp add: typeMismatchIssue_def modeSeverity_def split: mode.splits)
  }
  {
    assume "\<forall>t \<in> set (typeList (getSchemaType inputSchema)). t \<in> set (typeList (getSchemaType outputSchema))"
    then have inc: "typeIncludes (getSchemaType outputSchema) (getSchemaType inputSchema)"
      using assms typeIncludes_iff by (auto simp: declaresType_def)
    show "\<forall>issue \<in> set (validateSchemaCompatibility outputSchema inputSchema p mode).
               path issue = p \<longrightarrow> \<not> isTypeMismatch issue"
    proof (intro ballI impI)
      fix issue
      assume mem: "issue \<in> set (validateSchemaCompatibility outputSchema inputSchema p mode)"
        and pth: "path issue = p"
      from mem inc tr have
        "issue \<in> set (validateSchemaCompatibility (getArrayItems outputSchema) (getArrayItems inputSchema) (p @ ''.items'') mode)
         \<or> \<not> isTypeMismatch issue"
        by (subst (asm) validateSchemaCompatibility.simps)
           (auto simp: Let_def isTypeMismatch_def missingKeyIssue_def split: if_splits)
      then show "\<not> isTypeMismatch issue"
        using issue_path_extends pth by fastforce
    qed
  }
qed

theorem type_mismatch_issue_witness:
  "declaresType wString \<and> declaresType wObj
   \<and> (\<exists>t \<in> set (typeList (getSchemaType wObj)). t \<notin> set (typeList (getSchemaType wString)))
   \<and> validateSchemaCompatibility wString wObj ''wf.steps.1'' Strict
       = [\<lparr>message = ''Schema type mismatch. Output type '' @ [CHR 0x22] @ ''string'' @ [CHR 0x22]
                       @ '' does not satisfy input type '' @ [CHR 0x22] @ ''object'' @ [CHR 0x22] @ ''.'',
            path = ''wf.steps.1'', severity = SevError\<rparr>]
   \<and> validateSchemaCompatibility wString wObj ''wf.steps.1'' Warn
       = [\<lparr>message = ''Schema type mismatch. Output type '' @ [CHR 0x22] @ ''string'' @ [CHR 0x22]
                       @ '' does not satisfy input type '' @ [CHR 0x22] @ ''object'' @ [CHR 0x22] @ ''.'',
            path = ''wf.steps.1'', severity = SevWarning\<rparr>]
   \<and> declaresType wStrings \<and> declaresType wNumbers
   \<and> list_all (\<lambda>t. t \<in> set (typeList (getSchemaType wStrings))) (typeList (getSchemaType wNumbers))
   \<and> list_all (\<lambda>issue. \<not> (path issue = ''wf.steps.1'' \<and> isTypeMismatch issue))
        (validateSchemaCompatibility wStrings wNumbers ''wf.steps.1'' Strict)"
proof -
  have d: "declaresType wString" "declaresType wObj" "declaresType wStrings" "declaresType wNumbers"
    by (simp_all add: declaresType_def getSchemaType_def wString_def wObj_def wStrings_def wNumbers_def)
  have t: "getSchemaType wString = JStr ''string''" "getSchemaType wObj = JStr ''object''"
    "getSchemaType wStrings = JStr ''array''" "getSchemaType wNumbers = JStr ''array''"
    by (simp_all add: getSchemaType_def wString_def wObj_def wStrings_def wNumbers_def)
  have m: "typeMismatchMessage (JStr ''string'') (JStr ''object'')
      = ''Schema type mismatch. Output type '' @ [CHR 0x22] @ ''string'' @ [CHR 0x22]
                       @ '' does not satisfy input type '' @ [CHR 0x22] @ ''object'' @ [CHR 0x22] @ ''.''"
    by (simp add: typeMismatchMessage_def json_quote_def json_escape_def)
  show ?thesis
    using d t m
      type_mismatch_issue [OF d(1) d(2), of "''wf.steps.1''" Strict]
      type_mismatch_issue [OF d(1) d(2), of "''wf.steps.1''" Warn]
      type_mismatch_issue [OF d(3) d(4), of "''wf.steps.1''" Strict]
    by (simp add: typeMismatchIssue_def list_all_iff)
qed

text \<open>
  A producer and a consumer schema that both declare type object, in either mode: after
  the issues of the scalar rules, the validator's result holds one missing-key issue for
  each entry of the consumer's required list for which \<^verbatim>\<open>key in outputProps\<close> is false, in
  order, and nothing else; a missing-key issue has severity warning, and no issue of the
  other rules is a missing-key issue. The test \<^verbatim>\<open>in\<close> also finds the names every object
  inherits.
\<close>

lemma required_key_issues:
  assumes "getSchemaType outputSchema = JStr ''object''" and "getSchemaType inputSchema = JStr ''object''"
  shows "\<exists>pre. validateSchemaCompatibility outputSchema inputSchema p mode
             = pre @ map (missingKeyIssue p)
                       (filter (\<lambda>key. \<not> js_in key (declaredProps outputSchema)) (getRequired inputSchema))
           \<and> (\<forall>issue \<in> set pre. \<forall>key. issue \<noteq> missingKeyIssue p key)
           \<and> (\<forall>key. severity (missingKeyIssue p key) = SevWarning)"
proof -
  have tr: "truthy outputSchema" "truthy inputSchema"
    using assms by (auto simp: getSchemaType_def split: if_splits)
  have inc: "typeIncludes (JStr ''object'') (JStr ''object'')"
    by (simp add: typeIncludes_def array_includes_def)
  show ?thesis
    using tr inc assms
    by (subst validateSchemaCompatibility.simps)
       (auto simp: Let_def declaredProps_def missingKeyIssue_def)
qed

text \<open>
  The producer declares the one property \<^verbatim>\<open>result\<close>; the consumer requires \<^verbatim>\<open>constructor\<close>
  and \<^verbatim>\<open>value\<close>, neither of them among the producer's declared properties; both schemas
  declare type object.
\<close>

lemma inherited_required_key_setting:
  "getSchemaType wProducer = JStr ''object''
   \<and> getSchemaType wInheritedConsumer = JStr ''object''
   \<and> map fst (entries (declaredProps wProducer)) = [''result'']
   \<and> getRequired wInheritedConsumer = [''constructor'', ''value'']"
  by code_simp

text \<open>
  C9 fails on a required key that bears the name of an inherited member. For the consumer
  that requires \<^verbatim>\<open>constructor\<close> and \<^verbatim>\<open>value\<close> of a producer that declares neither, the claim
  asks for two warnings, one for each key; the validator, in either mode, yields the one
  for \<^verbatim>\<open>value\<close> only, because \<^verbatim>\<open>"constructor" in outputProps\<close> holds of every object.
\<close>

theorem inherited_required_key_unreported:
  "validateSchemaCompatibility wProducer wInheritedConsumer ''wf.steps.1'' Warn
     = [missingKeyIssue ''wf.steps.1'' ''value'']
   \<and> validateSchemaCompatibility wProducer wInheritedConsumer ''wf.steps.1'' Strict
     = [missingKeyIssue ''wf.steps.1'' ''value'']"
  by code_simp
text \<open>
  C8. In every step sequence, a foreach step whose carried-forward shape is declared and
  is not an array schema contributes exactly one issue, between the issues of the steps
  before it and those of the steps after it: the foreach-after-non-array issue at the
  step's path, of severity error under strict and warning under warn.
\<close>

theorem foreach_after_non_array:
  assumes "truthy (carriedShape inputSchema before)"
    and "\<not> isArraySchema (carriedShape inputSchema before)"
  shows "validateSequence (before @ ForeachStep c body # after) p mode inputSchema
       = seqLoop (availableSteps (before @ ForeachStep c body # after)) p mode 0 inputSchema before
         @ [\<lparr>message = ''Foreach expects previous output to be an array schema.'',
             path = p @ ''.steps.'' @ show_nat (length before),
             severity = (case mode of Strict \<Rightarrow> SevError | Warn \<Rightarrow> SevWarning)\<rparr>]
         @ seqLoop (availableSteps (before @ ForeachStep c body # after)) p mode (Suc (length before))
             (computeForeachOutput (ForeachStep c body)) after"
proof -
  have "validateSchemaCompatibility (carriedShape inputSchema before) JUndefined
          (p @ ''.steps.'' @ show_nat (length before)) mode = []"
    by (subst validateSchemaCompatibility.simps) simp
  then show ?thesis
    using assms
    by (simp add: validateSequence_def seqLoop_append carriedShape_def foreachIssue_def
          modeSeverity_def split: mode.splits)
qed

theorem foreach_after_non_array_witness:
  "truthy (carriedShape wObj [Leaf (KStep ''first'') ''first'' wObj wObj JUndefined])
   \<and> \<not> isArraySchema (carriedShape wObj [Leaf (KStep ''first'') ''first'' wObj wObj JUndefined])
   \<and> validateSequence
        [Leaf (KStep ''first'') ''first'' wObj wObj JUndefined,
         ForeachStep None (Leaf (KStep ''process'') ''process'' wObj wObj JUndefined)]
        ''wf'' Strict wObj
       = [\<lparr>message = ''Foreach expects previous output to be an array schema.'',
            path = ''wf.steps.1'', severity = SevError\<rparr>]
   \<and> validateSequence
        [Leaf (KStep ''first'') ''first'' wObj wObj JUndefined,
         ForeachStep None (Leaf (KStep ''process'') ''process'' wObj wObj JUndefined)]
        ''wf'' Warn wObj
       = [\<lparr>message = ''Foreach expects previous output to be an array schema.'',
            path = ''wf.steps.1'', severity = SevWarning\<rparr>]"
proof -
  have c: "truthy (carriedShape wObj [Leaf (KStep ''first'') ''first'' wObj wObj JUndefined])"
    "\<not> isArraySchema (carriedShape wObj [Leaf (KStep ''first'') ''first'' wObj wObj JUndefined])"
    by (simp_all add: carriedShape_def wObj_def isArraySchema_def)
  have v: "validateSchemaCompatibility wObj wObj p mode = []" for p mode
    by (subst validateSchemaCompatibility.simps)
       (simp add: wObj_def getSchemaType_def typeIncludes_def array_includes_def isNullable_def
          getUnionSchemas_def isEnumCompatible_def getScalarConstraints_def constraintKeys_def
          getRequired_def)
  show ?thesis
    using c v
      foreach_after_non_array [OF c, of None "Leaf (KStep ''process'') ''process'' wObj wObj JUndefined" "[]" "''wf''" Strict]
      foreach_after_non_array [OF c, of None "Leaf (KStep ''process'') ''process'' wObj wObj JUndefined" "[]" "''wf''" Warn]
    by (simp add: show_nat.simps)
qed






text \<open>
  The lookup is a property read. In a bucket that is an ordinary object it finds the
  inherited members too: with an empty \<^verbatim>\<open>handlers\<close> bucket, the action \<^verbatim>\<open>constructor\<close> is
  found, and a step with that action is not reported.
\<close>

lemma inherited_handler_name:
  "handlerExists absentRegistry ''handlers.constructor''
   \<and> \<not> handlerExists absentRegistry ''handlers.build''
   \<and> validateHandlers [Leaf (KStep ''constructor'') ''first'' wObj wObj JUndefined,
                        Leaf (KStep ''build'') ''second'' wObj wObj JUndefined] ''wf.steps'' absentRegistry
       = [missingIssue ''handler'' ''build'' ''wf.steps.1.action'']"
  by (simp add: handlerExists_def splitHandlerId_def bucketHas_def absentRegistry_def plainBucket_def
        objectPrototypeNames_def validateHandlers_def handlersVisitor_def handlerIssues_def
        show_nat.simps)




end
